theory Spec2Isabelle
  imports Complex_Main
begin

section \<open>Common data: errors, dictionaries, the relational store\<close>

text \<open>
  Python exceptions are values of \<open>error\<close>; an operation that may raise returns
  \<open>error + 'a\<close> with \<open>Inl\<close> for the exception. Python floats and SQL numerics are
  modelled as HOL reals, scores as integers.
\<close>

datatype error = KeyError string | IndexError | DatabaseError | TypeError | EstimatorError

definition ebind :: "error + 'a \<Rightarrow> ('a \<Rightarrow> error + 'b) \<Rightarrow> error + 'b" where
  "ebind r f = (case r of Inl e \<Rightarrow> Inl e | Inr v \<Rightarrow> f v)"

text \<open>A Python dict with string keys, in insertion order; \<open>d[k]\<close> raises KeyError.\<close>

type_synonym 'v dict = "(string \<times> 'v) list"

definition getitem :: "'v dict \<Rightarrow> string \<Rightarrow> error + 'v" where
  "getitem d k = (case map_of d k of None \<Rightarrow> Inl (KeyError k) | Some v \<Rightarrow> Inr v)"

definition keys :: "'v dict \<Rightarrow> string list" where
  "keys d = map fst d"

text \<open>
  Modelled from the spec: the schema of the \<open>games\<close> and \<open>predictions\<close> tables,
  which the sources only query. The columns are those named in the SQL statements. A
  game's scores are nullable. A prediction row has a predicted value and a confidence,
  and an optional actual value and optional correctness flag (the spec's
  PredictionRecord); rows are keyed by game, model name and prediction type. Dates and
  timestamps are integers, numeric columns are reals.
\<close>

record game =
  g_id :: string
  home_team_id :: string
  away_team_id :: string
  home_score :: "int option"
  away_score :: "int option"
  game_date :: int
  status :: string

record prediction =
  game_id :: string
  model_name :: string
  prediction_type :: string
  predicted_value :: real
  confidence :: real
  actual_value :: "real option"
  is_correct :: "bool option"
  created_at :: int

text \<open>
  \<open>DatabaseManager\<close>: \<open>get_connection\<close> raises when the server cannot be reached
  (\<open>db_up\<close> false) and otherwise gives access to the tables.
\<close>

record database =
  db_up :: bool
  db_games :: "game list"
  db_predictions :: "prediction list"

definition get_connection :: "database \<Rightarrow> error + database" where
  "get_connection db = (if db_up db then Inr db else Inl DatabaseError)"

section \<open>feature_engineering.py\<close>

definition np_mean :: "real list \<Rightarrow> real" where
  "np_mean xs = sum_list xs / real (length xs)"

definition np_std :: "real list \<Rightarrow> real" where
  "np_std xs = sqrt (np_mean (map (\<lambda>x. (x - np_mean xs)\<^sup>2) xs))"

text \<open>A row of the data frame read by \<open>get_team_stats\<close>: both scores are present.\<close>

record team_row =
  r_id :: string
  r_home_team_id :: string
  r_away_team_id :: string
  r_home_score :: int
  r_away_score :: int
  r_game_date :: int
  r_venue :: string

definition scored_completed :: "game \<Rightarrow> bool" where
  "scored_completed g \<longleftrightarrow>
     status g = ''completed'' \<and> home_score g \<noteq> None \<and> away_score g \<noteq> None"

definition team_game :: "string \<Rightarrow> game \<Rightarrow> bool" where
  "team_game team_id g \<longleftrightarrow>
     (home_team_id g = team_id \<or> away_team_id g = team_id) \<and> scored_completed g"

definition team_row_of :: "string \<Rightarrow> game \<Rightarrow> team_row" where
  "team_row_of team_id g =
     \<lparr>r_id = g_id g, r_home_team_id = home_team_id g, r_away_team_id = away_team_id g,
      r_home_score = (case home_score g of Some s \<Rightarrow> s | None \<Rightarrow> 0),
      r_away_score = (case away_score g of Some s \<Rightarrow> s | None \<Rightarrow> 0),
      r_game_date = game_date g,
      r_venue = (if home_team_id g = team_id then ''home'' else ''away'')\<rparr>"

text \<open>
  The query of \<open>get_team_stats\<close>: the team's scored completed games,
  \<open>ORDER BY game_date DESC LIMIT games_back\<close>. Games of equal date keep their table
  order; a negative limit is rejected by the server.
\<close>

definition team_games_query :: "game list \<Rightarrow> string \<Rightarrow> int \<Rightarrow> error + team_row list" where
  "team_games_query gs team_id games_back =
     (if games_back < 0 then Inl DatabaseError
      else Inr (take (nat games_back)
             (map (team_row_of team_id)
               (sort_key (\<lambda>g. - game_date g) (filter (team_game team_id) gs)))))"

definition get_default_stats :: "real dict" where
  "get_default_stats =
     [(''avg_points_scored'', 110.0), (''avg_points_allowed'', 110.0),
      (''avg_point_differential'', 0.0), (''win_percentage'', 0.5),
      (''home_win_pct'', 0.5), (''away_win_pct'', 0.5),
      (''recent_form'', 0.5), (''scoring_consistency'', 0.5)]"

definition row_won :: "string \<Rightarrow> team_row \<Rightarrow> bool" where
  "row_won venue row \<longleftrightarrow>
     (venue = ''home'' \<and> r_home_score row > r_away_score row) \<or>
     (venue = ''away'' \<and> r_away_score row > r_home_score row)"

definition calculate_win_pct :: "team_row list \<Rightarrow> string \<Rightarrow> real" where
  "calculate_win_pct games_df venue =
     (if games_df = [] then 0.5
      else real (length (filter (row_won venue) games_df)) / real (length games_df))"

definition team_scores_of :: "team_row list \<Rightarrow> int list" where
  "team_scores_of df =
     map (\<lambda>row. if r_venue row = ''home'' then r_home_score row else r_away_score row) df"

definition opponent_scores_of :: "team_row list \<Rightarrow> int list" where
  "opponent_scores_of df =
     map (\<lambda>row. if r_venue row = ''home'' then r_away_score row else r_home_score row) df"

definition count_wins :: "int list \<Rightarrow> int list \<Rightarrow> nat" where
  "count_wins team_scores opponent_scores =
     length (filter (\<lambda>(score, opp). score > opp) (zip team_scores opponent_scores))"

definition compute_team_stats :: "team_row list \<Rightarrow> real dict" where
  "compute_team_stats df =
     (let team_scores = team_scores_of df;
          opponent_scores = opponent_scores_of df;
          avg_scored = np_mean (map real_of_int team_scores);
          avg_allowed = np_mean (map real_of_int opponent_scores);
          wins = count_wins team_scores opponent_scores;
          home_games = filter (\<lambda>row. r_venue row = ''home'') df;
          away_games = filter (\<lambda>row. r_venue row = ''away'') df;
          recent_games = take 5 df
      in [(''avg_points_scored'', avg_scored),
          (''avg_points_allowed'', avg_allowed),
          (''avg_point_differential'', avg_scored - avg_allowed),
          (''win_percentage'',
             (if team_scores \<noteq> [] then real wins / real (length team_scores) else 0)),
          (''home_win_pct'',
             (if home_games \<noteq> [] then calculate_win_pct home_games ''home'' else 0.5)),
          (''away_win_pct'',
             (if away_games \<noteq> [] then calculate_win_pct away_games ''away'' else 0.5)),
          (''recent_form'',
             (if recent_games \<noteq> []
              then real (length (filter (\<lambda>row. row_won (r_venue row) row) recent_games))
                     / real (length recent_games)
              else 0.5)),
          (''scoring_consistency'',
             (if team_scores \<noteq> [] then 1 / (np_std (map real_of_int team_scores) + 1)
              else 0.5))])"

text \<open>The body of the \<open>try\<close> block of \<open>get_team_stats\<close>, and the function with its handler.\<close>

definition get_team_stats_try :: "database \<Rightarrow> string \<Rightarrow> int \<Rightarrow> error + real dict" where
  "get_team_stats_try db team_id games_back =
     ebind (get_connection db) (\<lambda>conn.
     ebind (team_games_query (db_games conn) team_id games_back) (\<lambda>df.
       if df = [] then Inr get_default_stats else Inr (compute_team_stats df)))"

definition get_team_stats :: "database \<Rightarrow> string \<Rightarrow> int \<Rightarrow> real dict" where
  "get_team_stats db team_id games_back =
     (case get_team_stats_try db team_id games_back of
        Inr stats \<Rightarrow> stats
      | Inl e \<Rightarrow> get_default_stats)"

record h2h_row =
  h_home_team_id :: string
  h_away_team_id :: string
  h_home_score :: int
  h_away_score :: int
  h_game_date :: int

definition h2h_game :: "string \<Rightarrow> string \<Rightarrow> game \<Rightarrow> bool" where
  "h2h_game team1_id team2_id g \<longleftrightarrow>
     ((home_team_id g = team1_id \<and> away_team_id g = team2_id) \<or>
      (home_team_id g = team2_id \<and> away_team_id g = team1_id)) \<and> scored_completed g"

definition h2h_row_of :: "game \<Rightarrow> h2h_row" where
  "h2h_row_of g =
     \<lparr>h_home_team_id = home_team_id g, h_away_team_id = away_team_id g,
      h_home_score = (case home_score g of Some s \<Rightarrow> s | None \<Rightarrow> 0),
      h_away_score = (case away_score g of Some s \<Rightarrow> s | None \<Rightarrow> 0),
      h_game_date = game_date g\<rparr>"

definition h2h_query :: "game list \<Rightarrow> string \<Rightarrow> string \<Rightarrow> int \<Rightarrow> error + h2h_row list" where
  "h2h_query gs team1_id team2_id games_back =
     (if games_back < 0 then Inl DatabaseError
      else Inr (take (nat games_back)
             (map h2h_row_of
               (sort_key (\<lambda>g. - game_date g) (filter (h2h_game team1_id team2_id) gs)))))"

definition default_h2h_stats :: "real dict" where
  "default_h2h_stats =
     [(''h2h_win_pct'', 0.5), (''avg_total_points'', 220.0), (''avg_margin'', 0.0)]"

definition h2h_team1_won :: "string \<Rightarrow> h2h_row \<Rightarrow> bool" where
  "h2h_team1_won team1_id row \<longleftrightarrow>
     (if h_home_team_id row = team1_id then h_home_score row > h_away_score row
      else h_away_score row > h_home_score row)"

definition h2h_margin :: "string \<Rightarrow> h2h_row \<Rightarrow> int" where
  "h2h_margin team1_id row =
     (if h_home_team_id row = team1_id then h_home_score row - h_away_score row
      else h_away_score row - h_home_score row)"

definition compute_h2h_stats :: "string \<Rightarrow> h2h_row list \<Rightarrow> real dict" where
  "compute_h2h_stats team1_id df =
     (let team1_wins = length (filter (h2h_team1_won team1_id) df);
          total_points = map (\<lambda>row. h_home_score row + h_away_score row) df;
          margins = map (h2h_margin team1_id) df
      in [(''h2h_win_pct'', real team1_wins / real (length df)),
          (''avg_total_points'', np_mean (map real_of_int total_points)),
          (''avg_margin'', np_mean (map real_of_int margins))])"

definition get_head_to_head_stats_try ::
  "database \<Rightarrow> string \<Rightarrow> string \<Rightarrow> int \<Rightarrow> error + real dict" where
  "get_head_to_head_stats_try db team1_id team2_id games_back =
     ebind (get_connection db) (\<lambda>conn.
     ebind (h2h_query (db_games conn) team1_id team2_id games_back) (\<lambda>df.
       if df = [] then Inr default_h2h_stats else Inr (compute_h2h_stats team1_id df)))"

definition get_head_to_head_stats :: "database \<Rightarrow> string \<Rightarrow> string \<Rightarrow> int \<Rightarrow> real dict" where
  "get_head_to_head_stats db team1_id team2_id games_back =
     (case get_head_to_head_stats_try db team1_id team2_id games_back of
        Inr stats \<Rightarrow> stats
      | Inl e \<Rightarrow> default_h2h_stats)"

text \<open>
  \<open>create_game_features\<close> has no handler of its own: a missing key of one of the three
  statistics dicts would raise. The lookups are made in the order of the source.
\<close>

definition create_game_features :: "database \<Rightarrow> string \<Rightarrow> string \<Rightarrow> error + real dict" where
  "create_game_features db home_id away_id =
     (let home_stats = get_team_stats db home_id 10;
          away_stats = get_team_stats db away_id 10;
          h2h_stats = get_head_to_head_stats db home_id away_id 5
      in ebind (getitem home_stats ''avg_points_scored'') (\<lambda>home_avg_scored.
         ebind (getitem home_stats ''avg_points_allowed'') (\<lambda>home_avg_allowed.
         ebind (getitem away_stats ''avg_points_scored'') (\<lambda>away_avg_scored.
         ebind (getitem away_stats ''avg_points_allowed'') (\<lambda>away_avg_allowed.
         ebind (getitem home_stats ''avg_point_differential'') (\<lambda>home_point_diff.
         ebind (getitem away_stats ''avg_point_differential'') (\<lambda>away_point_diff.
         ebind (getitem home_stats ''win_percentage'') (\<lambda>home_win_pct.
         ebind (getitem away_stats ''win_percentage'') (\<lambda>away_win_pct.
         ebind (getitem home_stats ''home_win_pct'') (\<lambda>home_home_pct.
         ebind (getitem away_stats ''away_win_pct'') (\<lambda>away_away_pct.
         ebind (getitem home_stats ''recent_form'') (\<lambda>home_recent_form.
         ebind (getitem away_stats ''recent_form'') (\<lambda>away_recent_form.
         ebind (getitem h2h_stats ''h2h_win_pct'') (\<lambda>h2h_win_pct.
         ebind (getitem h2h_stats ''avg_total_points'') (\<lambda>h2h_avg_total.
         ebind (getitem h2h_stats ''avg_margin'') (\<lambda>h2h_avg_margin.
         ebind (getitem home_stats ''scoring_consistency'') (\<lambda>home_consistency.
         ebind (getitem away_stats ''scoring_consistency'') (\<lambda>away_consistency.
           let projected_home_score = (home_avg_scored + away_avg_allowed) / 2;
               projected_away_score = (away_avg_scored + home_avg_allowed) / 2
           in Inr [(''home_avg_scored'', home_avg_scored),
                   (''home_avg_allowed'', home_avg_allowed),
                   (''away_avg_scored'', away_avg_scored),
                   (''away_avg_allowed'', away_avg_allowed),
                   (''home_point_diff'', home_point_diff),
                   (''away_point_diff'', away_point_diff),
                   (''point_diff_advantage'', home_point_diff - away_point_diff),
                   (''home_win_pct'', home_win_pct),
                   (''away_win_pct'', away_win_pct),
                   (''win_pct_advantage'', home_win_pct - away_win_pct),
                   (''home_court_advantage'', home_home_pct - away_away_pct),
                   (''home_recent_form'', home_recent_form),
                   (''away_recent_form'', away_recent_form),
                   (''form_advantage'', home_recent_form - away_recent_form),
                   (''h2h_win_pct'', h2h_win_pct),
                   (''h2h_avg_total'', h2h_avg_total),
                   (''h2h_avg_margin'', h2h_avg_margin),
                   (''home_consistency'', home_consistency),
                   (''away_consistency'', away_consistency),
                   (''projected_home_score'', projected_home_score),
                   (''projected_away_score'', projected_away_score),
                   (''projected_total'', projected_home_score + projected_away_score),
                   (''projected_spread'', projected_home_score - projected_away_score)]
         ))))))))))))))))))"

section \<open>prediction_models.py\<close>

text \<open>
  A data frame has named columns and rows; a cell that is missing (NaN) is \<open>None\<close>.
  \<open>DataFrame.empty\<close> holds when either axis has length zero.
\<close>

record dataframe =
  df_columns :: "string list"
  df_rows :: "(string \<rightharpoonup> real) list"

type_synonym matrix = "real list list"

definition df_empty :: "dataframe \<Rightarrow> bool" where
  "df_empty df \<longleftrightarrow> df_columns df = [] \<or> df_rows df = []"

definition dataframe_of_dict :: "real dict \<Rightarrow> dataframe" where
  "dataframe_of_dict d = \<lparr>df_columns = keys d, df_rows = [map_of d]\<rparr>"

text \<open>
  The three predictor classes have the same fields. The estimator and the scaler are
  scikit-learn objects: they are modelled by what their \<open>predict\<close>/\<open>predict_proba\<close> and
  \<open>transform\<close> methods return on a feature matrix, which may be an exception.
  \<open>'p\<close> is the shape of the estimator's output: a matrix of class probabilities for the
  classifier, a vector for the regressors.
\<close>

record 'p predictor =
  model :: "(matrix \<Rightarrow> error + 'p) option"
  scaler :: "matrix \<Rightarrow> error + matrix"
  feature_columns :: "string list option"
  is_trained :: bool

definition unfitted_scaler :: "matrix \<Rightarrow> error + matrix" where
  "unfitted_scaler X = Inl EstimatorError"

definition init_predictor :: "'p predictor" where
  "init_predictor =
     \<lparr>model = None, scaler = unfitted_scaler, feature_columns = None, is_trained = False\<rparr>"

definition outcome_feature_cols :: "string list" where
  "outcome_feature_cols =
     [''home_avg_scored'', ''home_avg_allowed'', ''away_avg_scored'', ''away_avg_allowed'',
      ''home_point_diff'', ''away_point_diff'', ''point_diff_advantage'',
      ''home_win_pct'', ''away_win_pct'', ''win_pct_advantage'',
      ''home_court_advantage'', ''home_recent_form'', ''away_recent_form'', ''form_advantage'',
      ''h2h_win_pct'', ''home_consistency'', ''away_consistency'']"

definition spread_feature_cols :: "string list" where
  "spread_feature_cols =
     [''home_avg_scored'', ''home_avg_allowed'', ''away_avg_scored'', ''away_avg_allowed'',
      ''point_diff_advantage'', ''win_pct_advantage'', ''home_court_advantage'',
      ''form_advantage'', ''h2h_avg_margin'', ''projected_spread'']"

definition total_feature_cols :: "string list" where
  "total_feature_cols =
     [''home_avg_scored'', ''home_avg_allowed'', ''away_avg_scored'', ''away_avg_allowed'',
      ''projected_home_score'', ''projected_away_score'', ''projected_total'',
      ''h2h_avg_total'', ''home_consistency'', ''away_consistency'']"

text \<open>
  \<open>prepare_features\<close> is the same method in the three classes up to the list of feature
  names: it keeps the listed columns that the frame has, records them in
  \<open>feature_columns\<close> and fills missing cells with zero. The result is the list of kept
  columns with the matrix of their values.
\<close>

definition prepare_features ::
  "string list \<Rightarrow> 'p predictor \<Rightarrow> dataframe \<Rightarrow> (string list \<times> matrix) \<times> 'p predictor" where
  "prepare_features feature_cols m df =
     (let available_cols = filter (\<lambda>col. col \<in> set (df_columns df)) feature_cols
      in ((available_cols,
           map (\<lambda>r. map (\<lambda>col. case r col of None \<Rightarrow> 0 | Some v \<Rightarrow> v) available_cols)
             (df_rows df)),
          m\<lparr>feature_columns := Some available_cols\<rparr>))"

definition frame_empty :: "string list \<times> matrix \<Rightarrow> bool" where
  "frame_empty X \<longleftrightarrow> fst X = [] \<or> snd X = []"

text \<open>
  What the scikit-learn part of \<open>train\<close> (split, scaling, fitting, evaluation) leaves
  behind: the scaler and the estimator it assigned, if it got that far, and whether it
  raised.
\<close>

record 'p fit_result =
  fit_scaler :: "(matrix \<Rightarrow> error + matrix) option"
  fit_model :: "(matrix \<Rightarrow> error + 'p) option"
  fit_raised :: bool

text \<open>
  \<open>train\<close> is the same method in the three classes up to the feature list, the label
  column and the estimator, which are parameters here.
\<close>

definition train ::
  "string list \<Rightarrow> string \<Rightarrow> (matrix \<Rightarrow> real option list \<Rightarrow> 'p fit_result) \<Rightarrow>
   'p predictor \<Rightarrow> dataframe \<Rightarrow> bool \<times> 'p predictor" where
  "train feature_cols label fit m training_data =
     (if df_empty training_data \<or> label \<notin> set (df_columns training_data) then (False, m)
      else
        let (X, m1) = prepare_features feature_cols m training_data;
            y = map (\<lambda>r. r label) (df_rows training_data)
        in if frame_empty X then (False, m1)
           else
             let res = fit (snd X) y;
                 m2 = m1\<lparr>scaler := (case fit_scaler res of None \<Rightarrow> scaler m1 | Some s \<Rightarrow> s),
                         model := (case fit_model res of None \<Rightarrow> model m1 | Some e \<Rightarrow> Some e)\<rparr>
             in if fit_raised res then (False, m2)
                else (True, m2\<lparr>is_trained := True\<rparr>))"

definition outcome_train ::
  "(matrix \<Rightarrow> real option list \<Rightarrow> matrix fit_result) \<Rightarrow>
   matrix predictor \<Rightarrow> dataframe \<Rightarrow> bool \<times> matrix predictor" where
  "outcome_train = train outcome_feature_cols ''home_win''"

definition spread_train ::
  "(matrix \<Rightarrow> real option list \<Rightarrow> real list fit_result) \<Rightarrow>
   real list predictor \<Rightarrow> dataframe \<Rightarrow> bool \<times> real list predictor" where
  "spread_train = train spread_feature_cols ''point_spread''"

definition total_train ::
  "(matrix \<Rightarrow> real option list \<Rightarrow> real list fit_result) \<Rightarrow>
   real list predictor \<Rightarrow> dataframe \<Rightarrow> bool \<times> real list predictor" where
  "total_train = train total_feature_cols ''total_points''"

definition first_item :: "'a list \<Rightarrow> error + 'a" where
  "first_item xs = (case xs of [] \<Rightarrow> Inl IndexError | x # _ \<Rightarrow> Inr x)"

definition outcome_fallback :: "real dict" where
  "outcome_fallback = [(''home_win_probability'', 0.5), (''confidence'', 0.0)]"

definition spread_fallback :: "real dict" where
  "spread_fallback = [(''predicted_spread'', 0.0), (''confidence'', 0.0)]"

definition total_fallback :: "real dict" where
  "total_fallback = [(''predicted_total'', 220.0), (''confidence'', 0.0)]"

definition outcome_predict ::
  "matrix predictor \<Rightarrow> dataframe \<Rightarrow> real dict \<times> matrix predictor" where
  "outcome_predict m features =
     (case model m of
        None \<Rightarrow> (outcome_fallback, m)
      | Some clf \<Rightarrow>
          if \<not> is_trained m then (outcome_fallback, m)
          else
            let (X, m1) = prepare_features outcome_feature_cols m features
            in (case ebind (scaler m1 (snd X)) (\<lambda>X_scaled.
                     ebind (clf X_scaled) (\<lambda>probabilities.
                     ebind (first_item probabilities) (\<lambda>row0.
                       let home_win_prob = (if length row0 > 1 then row0 ! 1 else 0.5);
                           conf = \<bar>home_win_prob - 0.5\<bar> * 2
                       in Inr [(''home_win_probability'', home_win_prob),
                               (''away_win_probability'', 1 - home_win_prob),
                               (''confidence'', conf)])))
                of Inr d \<Rightarrow> (d, m1)
                 | Inl e \<Rightarrow> (outcome_fallback, m1)))"

definition spread_predict ::
  "real list predictor \<Rightarrow> dataframe \<Rightarrow> real dict \<times> real list predictor" where
  "spread_predict m features =
     (case model m of
        None \<Rightarrow> (spread_fallback, m)
      | Some reg \<Rightarrow>
          if \<not> is_trained m then (spread_fallback, m)
          else
            let (X, m1) = prepare_features spread_feature_cols m features
            in (case ebind (scaler m1 (snd X)) (\<lambda>X_scaled.
                     ebind (reg X_scaled) (\<lambda>ys.
                     ebind (first_item ys) (\<lambda>predicted_spread.
                       let conf = min 0.8 (\<bar>predicted_spread\<bar> / 20.0)
                       in Inr [(''predicted_spread'', predicted_spread),
                               (''confidence'', conf)])))
                of Inr d \<Rightarrow> (d, m1)
                 | Inl e \<Rightarrow> (spread_fallback, m1)))"

definition total_predict ::
  "real list predictor \<Rightarrow> dataframe \<Rightarrow> real dict \<times> real list predictor" where
  "total_predict m features =
     (case model m of
        None \<Rightarrow> (total_fallback, m)
      | Some reg \<Rightarrow>
          if \<not> is_trained m then (total_fallback, m)
          else
            let (X, m1) = prepare_features total_feature_cols m features
            in (case ebind (scaler m1 (snd X)) (\<lambda>X_scaled.
                     ebind (reg X_scaled) (\<lambda>ys.
                     ebind (first_item ys) (\<lambda>predicted_total.
                       let conf = min 0.8 (1.0 - \<bar>predicted_total - 220\<bar> / 100.0)
                       in Inr [(''predicted_total'', predicted_total),
                               (''confidence'', max 0.1 conf)])))
                of Inr d \<Rightarrow> (d, m1)
                 | Inl e \<Rightarrow> (total_fallback, m1)))"

text \<open>The merged prediction is a dict of numbers, strings and one nested dict.\<close>

datatype pyval = Num real | Str string | Dict "(string \<times> pyval) list"

record manager =
  outcome_model :: "matrix predictor"
  spread_model :: "real list predictor"
  total_model :: "real list predictor"
  mgr_db :: database

definition neutral_bundle :: "pyval dict" where
  "neutral_bundle =
     [(''home_win_probability'', Num 0.5),
      (''away_win_probability'', Num 0.5),
      (''predicted_spread'', Num 0.0),
      (''predicted_total'', Num 220.0),
      (''confidence_scores'',
         Dict [(''outcome'', Num 0.0), (''spread'', Num 0.0), (''total'', Num 0.0)])]"

text \<open>The dict display of \<open>predict_game\<close>; its lookups are evaluated in source order.\<close>

definition combine_predictions ::
  "real dict \<Rightarrow> real dict \<Rightarrow> real dict \<Rightarrow> string \<Rightarrow> error + pyval dict" where
  "combine_predictions outcome_pred spread_pred total_pred now =
     ebind (getitem outcome_pred ''home_win_probability'') (\<lambda>hwp.
     ebind (getitem outcome_pred ''away_win_probability'') (\<lambda>awp.
     ebind (getitem spread_pred ''predicted_spread'') (\<lambda>ps.
     ebind (getitem total_pred ''predicted_total'') (\<lambda>pt.
     ebind (getitem outcome_pred ''confidence'') (\<lambda>oc.
     ebind (getitem spread_pred ''confidence'') (\<lambda>sc.
     ebind (getitem total_pred ''confidence'') (\<lambda>tc.
       Inr [(''home_win_probability'', Num hwp),
            (''away_win_probability'', Num awp),
            (''predicted_spread'', Num ps),
            (''predicted_total'', Num pt),
            (''confidence_scores'',
               Dict [(''outcome'', Num oc), (''spread'', Num sc), (''total'', Num tc)]),
            (''model_name'', Str ''Project Apex ML''),
            (''prediction_time'', Str now)])))))))"

text \<open>
  The \<open>try\<close> block of \<open>predict_game\<close>. \<open>now\<close> is the text of the current time. The
  predictors are updated in place by their \<open>predict\<close> calls, also when the merge raises
  afterwards; so the block returns the manager together with the outcome.
\<close>

definition predict_game_try ::
  "manager \<Rightarrow> string \<Rightarrow> string \<Rightarrow> string \<Rightarrow> (error + pyval dict) \<times> manager" where
  "predict_game_try mgr home_id away_id now =
     (case create_game_features (mgr_db mgr) home_id away_id of
        Inl e \<Rightarrow> (Inl e, mgr)
      | Inr features_dict \<Rightarrow>
          let features_df = dataframe_of_dict features_dict;
              (outcome_pred, om) = outcome_predict (outcome_model mgr) features_df;
              (spread_pred, sm) = spread_predict (spread_model mgr) features_df;
              (total_pred, tm) = total_predict (total_model mgr) features_df
          in (combine_predictions outcome_pred spread_pred total_pred now,
              mgr\<lparr>outcome_model := om, spread_model := sm, total_model := tm\<rparr>))"

definition predict_game ::
  "manager \<Rightarrow> string \<Rightarrow> string \<Rightarrow> string \<Rightarrow> pyval dict \<times> manager" where
  "predict_game mgr home_id away_id now =
     (case predict_game_try mgr home_id away_id now of
        (Inr predictions, mgr') \<Rightarrow> (predictions, mgr')
      | (Inl e, mgr') \<Rightarrow> (neutral_bundle, mgr'))"

section \<open>prediction_generator.py\<close>

definition prediction_key :: "prediction \<Rightarrow> string \<times> string \<times> string" where
  "prediction_key p = (game_id p, model_name p, prediction_type p)"

text \<open>
  \<open>INSERT ... ON CONFLICT (game_id, model_name, prediction_type) DO UPDATE\<close>: the row
  with the key gets the new value, confidence and time; without such a row a new one is
  added, its \<open>actual_value\<close> and \<open>is_correct\<close> null.
\<close>

definition upsert_prediction ::
  "prediction list \<Rightarrow> string \<Rightarrow> string \<Rightarrow> string \<Rightarrow> real \<Rightarrow> real \<Rightarrow> int \<Rightarrow> prediction list" where
  "upsert_prediction tbl gid mname ptype pv conf now =
     (case find (\<lambda>p. prediction_key p = (gid, mname, ptype)) tbl of
        Some _ \<Rightarrow>
          map (\<lambda>p. if prediction_key p = (gid, mname, ptype)
                   then p\<lparr>predicted_value := pv, confidence := conf, created_at := now\<rparr>
                   else p) tbl
      | None \<Rightarrow>
          tbl @ [\<lparr>game_id = gid, model_name = mname, prediction_type = ptype,
                  predicted_value = pv, confidence = conf,
                  actual_value = None, is_correct = None, created_at = now\<rparr>])"

text \<open>
  The parameters of a statement are adapted by the driver and converted by the server.
  A number goes to a numeric column as it is. A string is sent as a quoted literal,
  which the server converts to the numeric type or rejects: this conversion,
  \<open>numeric_in\<close>, belongs to the server and is a parameter of the model. A dict cannot
  be adapted. The model name is a string.
\<close>

definition as_num :: "(string \<Rightarrow> real option) \<Rightarrow> pyval \<Rightarrow> error + real" where
  "as_num numeric_in v =
     (case v of
        Num x \<Rightarrow> Inr x
      | Str s \<Rightarrow> (case numeric_in s of Some x \<Rightarrow> Inr x | None \<Rightarrow> Inl DatabaseError)
      | Dict d \<Rightarrow> Inl TypeError)"

definition as_str :: "pyval \<Rightarrow> error + string" where
  "as_str v = (case v of Str s \<Rightarrow> Inr s | _ \<Rightarrow> Inl TypeError)"

definition subscript :: "pyval \<Rightarrow> string \<Rightarrow> error + pyval" where
  "subscript v k = (case v of Dict d \<Rightarrow> getitem d k | _ \<Rightarrow> Inl TypeError)"

definition store_one ::
  "(string \<Rightarrow> real option) \<Rightarrow> prediction list \<Rightarrow> string \<Rightarrow> pyval dict \<Rightarrow>
   string \<Rightarrow> string \<Rightarrow> string \<Rightarrow> int \<Rightarrow> error + prediction list" where
  "store_one numeric_in tbl gid predictions ptype value_key conf_key now =
     ebind (getitem predictions ''model_name'') (\<lambda>mname.
     ebind (getitem predictions value_key) (\<lambda>pv.
     ebind (getitem predictions ''confidence_scores'') (\<lambda>scores.
     ebind (subscript scores conf_key) (\<lambda>conf.
     ebind (as_str mname) (\<lambda>mname'.
     ebind (as_num numeric_in pv) (\<lambda>pv'.
     ebind (as_num numeric_in conf) (\<lambda>conf'.
       Inr (upsert_prediction tbl gid mname' ptype pv' conf' now))))))))"

text \<open>
  The \<open>try\<close> block of \<open>store_predictions\<close>: three statements in one transaction, which
  is committed at the end and rolled back when anything raises.
\<close>

definition store_predictions_try ::
  "(string \<Rightarrow> real option) \<Rightarrow> database \<Rightarrow> string \<Rightarrow> pyval dict \<Rightarrow> int \<Rightarrow>
   error + database" where
  "store_predictions_try numeric_in db gid predictions now =
     ebind (get_connection db) (\<lambda>conn.
     ebind (store_one numeric_in (db_predictions conn) gid predictions
              ''winner'' ''home_win_probability'' ''outcome'' now) (\<lambda>t1.
     ebind (store_one numeric_in t1 gid predictions
              ''spread'' ''predicted_spread'' ''spread'' now) (\<lambda>t2.
     ebind (store_one numeric_in t2 gid predictions
              ''total'' ''predicted_total'' ''total'' now) (\<lambda>t3.
       Inr (conn\<lparr>db_predictions := t3\<rparr>)))))"

definition store_predictions ::
  "(string \<Rightarrow> real option) \<Rightarrow> database \<Rightarrow> string \<Rightarrow> pyval dict \<Rightarrow> int \<Rightarrow> database" where
  "store_predictions numeric_in db gid predictions now =
     (case store_predictions_try numeric_in db gid predictions now of
        Inr db' \<Rightarrow> db'
      | Inl e \<Rightarrow> db)"

text \<open>
  The three \<open>UPDATE predictions p ... FROM games g\<close> statements of
  \<open>update_prediction_accuracy\<close>. A prediction row is updated from the game that joins
  with it and passes the \<open>WHERE\<close> clause.
\<close>

definition joined_game :: "game list \<Rightarrow> prediction \<Rightarrow> (int \<times> int) option" where
  "joined_game gs p =
     (case find (\<lambda>g. game_id p = g_id g \<and> scored_completed g) gs of
        None \<Rightarrow> None
      | Some g \<Rightarrow>
          (case (home_score g, away_score g) of
             (Some h, Some a) \<Rightarrow> Some (h, a)
           | _ \<Rightarrow> None))"

text \<open>
  Modelled from the spec: the type of the score columns, which the sources do not
  declare; scores are integers, taken as PostgreSQL \<open>integer\<close> columns. The server
  computes \<open>g.home_score - g.away_score\<close> and \<open>g.home_score + g.away_score\<close> in
  that type and raises "integer out of range" when the result does not fit 32 bits.
\<close>

definition pg_integer :: "int \<Rightarrow> bool" where
  "pg_integer x \<longleftrightarrow> - 2147483648 \<le> x \<and> x \<le> 2147483647"

definition pg_int4 :: "int \<Rightarrow> error + int" where
  "pg_int4 x = (if pg_integer x then Inr x else Inl DatabaseError)"

definition update_winner :: "game list \<Rightarrow> prediction \<Rightarrow> prediction" where
  "update_winner gs p =
     (if prediction_type p = ''winner'' \<and> actual_value p = None then
        (case joined_game gs p of
           None \<Rightarrow> p
         | Some (h, a) \<Rightarrow>
             p\<lparr>actual_value := Some (if h > a then 1 else 0),
               is_correct := Some (if predicted_value p > 0.5 \<and> h > a then True
                                   else if predicted_value p \<le> 0.5 \<and> h \<le> a then True
                                   else False)\<rparr>)
      else p)"

definition update_spread :: "game list \<Rightarrow> prediction \<Rightarrow> error + prediction" where
  "update_spread gs p =
     (if prediction_type p = ''spread'' \<and> actual_value p = None then
        (case joined_game gs p of
           None \<Rightarrow> Inr p
         | Some (h, a) \<Rightarrow>
             ebind (pg_int4 (h - a)) (\<lambda>d.
               Inr (p\<lparr>actual_value := Some (real_of_int d),
                      is_correct := Some (\<bar>predicted_value p - real_of_int d\<bar> \<le> 3)\<rparr>)))
      else Inr p)"

definition update_total :: "game list \<Rightarrow> prediction \<Rightarrow> error + prediction" where
  "update_total gs p =
     (if prediction_type p = ''total'' \<and> actual_value p = None then
        (case joined_game gs p of
           None \<Rightarrow> Inr p
         | Some (h, a) \<Rightarrow>
             ebind (pg_int4 (h + a)) (\<lambda>t.
               Inr (p\<lparr>actual_value := Some (real_of_int t),
                      is_correct := Some (\<bar>predicted_value p - real_of_int t\<bar> \<le> 5)\<rparr>)))
      else Inr p)"

text \<open>A statement goes through the rows of the table; an error in one row aborts it.\<close>

fun update_rows :: "('a \<Rightarrow> error + 'a) \<Rightarrow> 'a list \<Rightarrow> error + 'a list" where
  "update_rows f [] = Inr []"
| "update_rows f (x # xs) =
     ebind (f x) (\<lambda>y. ebind (update_rows f xs) (\<lambda>ys. Inr (y # ys)))"

text \<open>
  The \<open>try\<close> block of \<open>update_prediction_accuracy\<close>: the three statements in one
  transaction, rolled back when one of them raises.
\<close>

definition update_prediction_accuracy_try :: "database \<Rightarrow> error + database" where
  "update_prediction_accuracy_try db =
     ebind (get_connection db) (\<lambda>conn.
       let t1 = map (update_winner (db_games conn)) (db_predictions conn)
       in ebind (update_rows (update_spread (db_games conn)) t1) (\<lambda>t2.
          ebind (update_rows (update_total (db_games conn)) t2) (\<lambda>t3.
            Inr (conn\<lparr>db_predictions := t3\<rparr>))))"

definition update_prediction_accuracy :: "database \<Rightarrow> database" where
  "update_prediction_accuracy db =
     (case update_prediction_accuracy_try db of
        Inr db' \<Rightarrow> db'
      | Inl e \<Rightarrow> db)"

section \<open>Facts about the feature engineering\<close>

lemma ebind_simps: "ebind (Inr v) f = f v" "ebind (Inl e) f = Inl e"
  by (simp_all add: ebind_def)

lemma ebind_not_isl: "\<not> isl r \<Longrightarrow> ebind r f = f (projr r)"
  by (cases r) (simp_all add: ebind_def)

lemma getitem_in_keys: "k \<in> set (keys d) \<Longrightarrow> \<not> isl (getitem d k)"
proof -
  assume "k \<in> set (keys d)"
  then have "map_of d k \<noteq> None"
    by (simp add: keys_def map_of_eq_None_iff)
  then show ?thesis
    by (auto simp: getitem_def split: option.splits)
qed

lemma keys_default_stats:
  "keys get_default_stats =
     [''avg_points_scored'', ''avg_points_allowed'', ''avg_point_differential'',
      ''win_percentage'', ''home_win_pct'', ''away_win_pct'', ''recent_form'',
      ''scoring_consistency'']"
  by (simp add: keys_def get_default_stats_def)

lemma keys_compute_team_stats: "keys (compute_team_stats df) = keys get_default_stats"
  by (simp add: keys_def get_default_stats_def compute_team_stats_def Let_def)

lemma get_team_stats_try_cases:
  "(\<exists>e. get_team_stats_try db team_id games_back = Inl e) \<or>
   get_team_stats_try db team_id games_back = Inr get_default_stats \<or>
   (\<exists>df. df \<noteq> [] \<and> get_team_stats_try db team_id games_back = Inr (compute_team_stats df))"
proof (cases "get_connection db")
  case (Inl e)
  then show ?thesis by (simp add: get_team_stats_try_def ebind_simps)
next
  case (Inr conn)
  show ?thesis
  proof (cases "team_games_query (db_games conn) team_id games_back")
    case (Inl e)
    with Inr show ?thesis by (simp add: get_team_stats_try_def ebind_simps)
  next
    case df: (Inr df)
    with Inr show ?thesis
      by (cases "df = []") (auto simp: get_team_stats_try_def ebind_simps)
  qed
qed

lemma get_team_stats_cases:
  "get_team_stats db team_id games_back = get_default_stats \<or>
   (\<exists>df. df \<noteq> [] \<and> get_team_stats db team_id games_back = compute_team_stats df)"
  using get_team_stats_try_cases [of db team_id games_back]
  by (auto simp: get_team_stats_def)

lemma keys_get_team_stats:
  "keys (get_team_stats db team_id games_back) = keys get_default_stats"
  using get_team_stats_cases [of db team_id games_back]
  by (auto simp: keys_compute_team_stats)

lemma keys_default_h2h_stats:
  "keys default_h2h_stats = [''h2h_win_pct'', ''avg_total_points'', ''avg_margin'']"
  by (simp add: keys_def default_h2h_stats_def)

lemma keys_compute_h2h_stats: "keys (compute_h2h_stats t df) = keys default_h2h_stats"
  by (simp add: keys_def default_h2h_stats_def compute_h2h_stats_def Let_def)

lemma get_head_to_head_stats_try_cases:
  "(\<exists>e. get_head_to_head_stats_try db t1 t2 n = Inl e) \<or>
   get_head_to_head_stats_try db t1 t2 n = Inr default_h2h_stats \<or>
   (\<exists>df. df \<noteq> [] \<and> get_head_to_head_stats_try db t1 t2 n = Inr (compute_h2h_stats t1 df))"
proof (cases "get_connection db")
  case (Inl e)
  then show ?thesis by (simp add: get_head_to_head_stats_try_def ebind_simps)
next
  case (Inr conn)
  show ?thesis
  proof (cases "h2h_query (db_games conn) t1 t2 n")
    case (Inl e)
    with Inr show ?thesis by (simp add: get_head_to_head_stats_try_def ebind_simps)
  next
    case df: (Inr df)
    with Inr show ?thesis
      by (cases "df = []") (auto simp: get_head_to_head_stats_try_def ebind_simps)
  qed
qed

lemma get_head_to_head_stats_cases:
  "get_head_to_head_stats db t1 t2 n = default_h2h_stats \<or>
   (\<exists>df. df \<noteq> [] \<and> get_head_to_head_stats db t1 t2 n = compute_h2h_stats t1 df)"
  using get_head_to_head_stats_try_cases [of db t1 t2 n]
  by (auto simp: get_head_to_head_stats_def)

lemma keys_get_head_to_head_stats:
  "keys (get_head_to_head_stats db t1 t2 n) = keys default_h2h_stats"
  using get_head_to_head_stats_cases [of db t1 t2 n]
  by (auto simp: keys_compute_h2h_stats)

lemma getitem_team_stats:
  "k \<in> set (keys get_default_stats) \<Longrightarrow> \<not> isl (getitem (get_team_stats db t n) k)"
  by (rule getitem_in_keys) (simp add: keys_get_team_stats)

lemma getitem_h2h_stats:
  "k \<in> set (keys default_h2h_stats) \<Longrightarrow> \<not> isl (getitem (get_head_to_head_stats db t1 t2 n) k)"
  by (rule getitem_in_keys) (simp add: keys_get_head_to_head_stats)

text \<open>The feature vector is always built: every key it reads is in the statistics.\<close>

lemma create_game_features_succeeds: "\<not> isl (create_game_features db home_id away_id)"
  unfolding create_game_features_def Let_def
  by (simp add: ebind_not_isl getitem_team_stats getitem_h2h_stats keys_default_stats
      keys_default_h2h_stats)

section \<open>Team statistics of a team without games\<close>

text \<open>
  C4. For a team with no scored completed game in the store, \<open>get_team_stats\<close> returns
  the fixed default profile, whatever the window and whether or not the store can be
  reached: averages 110, differential 0, the four fractions and the consistency 0.5.
\<close>

theorem get_team_stats_no_games:
  assumes "filter (team_game team_id) (db_games db) = []"
  shows "get_team_stats db team_id games_back = get_default_stats \<and>
         get_default_stats =
           [(''avg_points_scored'', 110), (''avg_points_allowed'', 110),
            (''avg_point_differential'', 0), (''win_percentage'', 0.5),
            (''home_win_pct'', 0.5), (''away_win_pct'', 0.5),
            (''recent_form'', 0.5), (''scoring_consistency'', 0.5)]"
  using assms
  by (simp add: get_team_stats_def get_team_stats_try_def get_connection_def
      team_games_query_def ebind_simps get_default_stats_def)

theorem get_team_stats_no_games_witness:
  "filter (team_game ''LAL'')
     (db_games \<lparr>db_up = True,
        db_games = [\<lparr>g_id = ''g1'', home_team_id = ''BOS'', away_team_id = ''NYK'',
                     home_score = Some 100, away_score = Some 90, game_date = 1,
                     status = ''completed''\<rparr>],
        db_predictions = []\<rparr>) = [] \<and>
   get_team_stats \<lparr>db_up = True,
        db_games = [\<lparr>g_id = ''g1'', home_team_id = ''BOS'', away_team_id = ''NYK'',
                     home_score = Some 100, away_score = Some 90, game_date = 1,
                     status = ''completed''\<rparr>],
        db_predictions = []\<rparr> ''LAL'' 10 = get_default_stats"
  using get_team_stats_no_games [of "''LAL''"
      "\<lparr>db_up = True,
        db_games = [\<lparr>g_id = ''g1'', home_team_id = ''BOS'', away_team_id = ''NYK'',
                     home_score = Some 100, away_score = Some 90, game_date = 1,
                     status = ''completed''\<rparr>],
        db_predictions = []\<rparr>" 10]
  by (simp add: team_game_def)

section \<open>The aggregators never raise\<close>

text \<open>
  C10. \<open>get_team_stats\<close> and \<open>get_head_to_head_stats\<close> are total: whatever exception
  their \<open>try\<close> block raises (a storage failure among them), the documented defaults are
  returned, and every result is a mapping with all the documented fields.
\<close>

theorem aggregators_total:
  "(\<forall>e. get_team_stats_try db team_id games_back = Inl e \<longrightarrow>
        get_team_stats db team_id games_back = get_default_stats) \<and>
   (\<not> db_up db \<longrightarrow> get_team_stats db team_id games_back = get_default_stats) \<and>
   keys (get_team_stats db team_id games_back) =
     [''avg_points_scored'', ''avg_points_allowed'', ''avg_point_differential'',
      ''win_percentage'', ''home_win_pct'', ''away_win_pct'', ''recent_form'',
      ''scoring_consistency''] \<and>
   (\<forall>e. get_head_to_head_stats_try db team1_id team2_id n = Inl e \<longrightarrow>
        get_head_to_head_stats db team1_id team2_id n = default_h2h_stats) \<and>
   (\<not> db_up db \<longrightarrow> get_head_to_head_stats db team1_id team2_id n = default_h2h_stats) \<and>
   keys (get_head_to_head_stats db team1_id team2_id n) =
     [''h2h_win_pct'', ''avg_total_points'', ''avg_margin''] \<and>
   default_h2h_stats = [(''h2h_win_pct'', 0.5), (''avg_total_points'', 220), (''avg_margin'', 0)]"
proof -
  have a: "\<forall>e. get_team_stats_try db team_id games_back = Inl e \<longrightarrow>
        get_team_stats db team_id games_back = get_default_stats"
    by (simp add: get_team_stats_def)
  have b: "\<not> db_up db \<longrightarrow> get_team_stats db team_id games_back = get_default_stats"
    by (simp add: get_team_stats_def get_team_stats_try_def get_connection_def ebind_simps)
  have c: "\<forall>e. get_head_to_head_stats_try db team1_id team2_id n = Inl e \<longrightarrow>
        get_head_to_head_stats db team1_id team2_id n = default_h2h_stats"
    by (simp add: get_head_to_head_stats_def)
  have d: "\<not> db_up db \<longrightarrow> get_head_to_head_stats db team1_id team2_id n = default_h2h_stats"
    by (simp add: get_head_to_head_stats_def get_head_to_head_stats_try_def
        get_connection_def ebind_simps)
  have e: "default_h2h_stats =
      [(''h2h_win_pct'', 0.5), (''avg_total_points'', 220), (''avg_margin'', 0)]"
    by (simp add: default_h2h_stats_def)
  from a b c d e show ?thesis
    by (simp only: keys_get_team_stats keys_default_stats keys_get_head_to_head_stats
        keys_default_h2h_stats simp_thms)
qed

theorem aggregators_total_witness:
  "get_team_stats_try \<lparr>db_up = False, db_games = [], db_predictions = []\<rparr> ''LAL'' 10
     = Inl DatabaseError \<and>
   get_team_stats \<lparr>db_up = False, db_games = [], db_predictions = []\<rparr> ''LAL'' 10
     = get_default_stats \<and>
   get_head_to_head_stats_try \<lparr>db_up = False, db_games = [], db_predictions = []\<rparr>
     ''LAL'' ''BOS'' 5 = Inl DatabaseError \<and>
   get_head_to_head_stats \<lparr>db_up = False, db_games = [], db_predictions = []\<rparr>
     ''LAL'' ''BOS'' 5 = default_h2h_stats"
proof -
  have t: "get_team_stats_try \<lparr>db_up = False, db_games = [], db_predictions = []\<rparr> ''LAL'' 10
     = Inl DatabaseError"
    by (simp add: get_team_stats_try_def get_connection_def ebind_simps)
  have h: "get_head_to_head_stats_try \<lparr>db_up = False, db_games = [], db_predictions = []\<rparr>
     ''LAL'' ''BOS'' 5 = Inl DatabaseError"
    by (simp add: get_head_to_head_stats_try_def get_connection_def ebind_simps)
  from t h aggregators_total [of "\<lparr>db_up = False, db_games = [], db_predictions = []\<rparr>"
      "''LAL''" 10 "''LAL''" "''BOS''" 5]
  show ?thesis by simp
qed

section \<open>Reconciliation of predictions with results\<close>

lemma find_game_by_id:
  assumes "distinct (map g_id gs)" and "g \<in> set gs" and "scored_completed g"
  shows "find (\<lambda>g'. g_id g = g_id g' \<and> scored_completed g') gs = Some g"
  using assms
proof (induction gs)
  case Nil
  then show ?case by simp
next
  case (Cons x gs)
  show ?case
  proof (cases "x = g")
    case True
    with Cons.prems show ?thesis by simp
  next
    case False
    with Cons.prems have "g \<in> set gs" and "g_id x \<noteq> g_id g"
      by (auto simp: image_iff)
    with Cons show ?thesis by simp
  qed
qed

lemma joined_game_found:
  assumes "distinct (map g_id gs)" and "g \<in> set gs" and "status g = ''completed''"
    and "home_score g = Some h" and "away_score g = Some a" and "game_id p = g_id g"
  shows "joined_game gs p = Some (h, a)"
proof -
  from assms have "scored_completed g"
    by (simp add: scored_completed_def)
  from find_game_by_id [OF assms(1,2) this] assms(4-6) show ?thesis
    by (simp add: joined_game_def)
qed

lemma joined_game_in_store:
  assumes "joined_game gs p = Some (h, a)"
  shows "\<exists>g \<in> set gs. home_score g = Some h \<and> away_score g = Some a"
proof -
  from assms obtain g where f: "find (\<lambda>g. game_id p = g_id g \<and> scored_completed g) gs = Some g"
    and hs: "home_score g = Some h" and as: "away_score g = Some a"
    by (auto simp: joined_game_def split: option.splits)
  from f have "g \<in> set gs"
    by (auto simp: find_Some_iff)
  with hs as show ?thesis by blast
qed

lemma update_rows_all2:
  "update_rows f xs = Inr ys \<longleftrightarrow> list_all2 (\<lambda>x y. f x = Inr y) xs ys"
proof (induction xs arbitrary: ys)
  case Nil
  then show ?case by auto
next
  case (Cons x xs)
  show ?case
  proof (cases "f x")
    case (Inl e)
    then show ?thesis
      by (auto simp: ebind_simps list_all2_Cons1)
  next
    case fx: (Inr y)
    show ?thesis
    proof (cases "update_rows f xs")
      case (Inl e)
      with fx Cons.IH show ?thesis
        by (auto simp: ebind_simps list_all2_Cons1)
    next
      case (Inr zs)
      with fx Cons.IH [of zs] Cons.IH show ?thesis
        by (auto simp: ebind_simps list_all2_Cons1)
    qed
  qed
qed

lemma update_rows_map:
  "\<forall>x \<in> set xs. f x = Inr (g x) \<Longrightarrow> update_rows f xs = Inr (map g xs)"
  by (induction xs) (simp_all add: ebind_simps)

lemma update_rows_fixed:
  "\<forall>x \<in> set xs. f x = Inr x \<Longrightarrow> update_rows f xs = Inr xs"
  using update_rows_map [of xs f "\<lambda>x. x"] by simp

lemma update_populated:
  assumes "actual_value p = Some v"
  shows "update_winner gs p = p" and "update_spread gs p = Inr p"
    and "update_total gs p = Inr p"
  using assms by (simp_all add: update_winner_def update_spread_def update_total_def)

lemma update_unjoined:
  assumes "joined_game gs p = None"
  shows "update_winner gs p = p" and "update_spread gs p = Inr p"
    and "update_total gs p = Inr p"
  using assms by (simp_all add: update_winner_def update_spread_def update_total_def)

lemma joined_game_cong: "game_id p' = game_id p \<Longrightarrow> joined_game gs p' = joined_game gs p"
  by (simp add: joined_game_def)

text \<open>Within the range of the integer type the two arithmetic statements do not raise.\<close>

lemma update_in_range:
  assumes "\<forall>g \<in> set gs. \<forall>x y. home_score g = Some x \<longrightarrow> away_score g = Some y \<longrightarrow>
             pg_integer (x - y) \<and> pg_integer (x + y)"
  shows "\<not> isl (update_spread gs p)" and "\<not> isl (update_total gs p)"
proof -
  have r: "pg_integer (h - a) \<and> pg_integer (h + a)" if "joined_game gs p = Some (h, a)" for h a
    using joined_game_in_store [OF that] assms by blast
  show "\<not> isl (update_spread gs p)"
  proof (cases "joined_game gs p")
    case None
    then show ?thesis by (simp add: update_unjoined)
  next
    case (Some ha)
    obtain h a where ha: "ha = (h, a)" by (cases ha)
    with Some r [of h a] show ?thesis
      by (simp add: update_spread_def pg_int4_def ebind_simps)
  qed
  show "\<not> isl (update_total gs p)"
  proof (cases "joined_game gs p")
    case None
    then show ?thesis by (simp add: update_unjoined)
  next
    case (Some ha)
    obtain h a where ha: "ha = (h, a)" by (cases ha)
    with Some r [of h a] show ?thesis
      by (simp add: update_total_def pg_int4_def ebind_simps)
  qed
qed

lemma update_prediction_accuracy_in_range:
  assumes "db_up db"
    and "\<forall>g \<in> set (db_games db). \<forall>x y. home_score g = Some x \<longrightarrow> away_score g = Some y \<longrightarrow>
             pg_integer (x - y) \<and> pg_integer (x + y)"
  shows "update_prediction_accuracy db =
     db\<lparr>db_predictions :=
          map (\<lambda>p. projr (update_total (db_games db)
                     (projr (update_spread (db_games db) (update_winner (db_games db) p)))))
            (db_predictions db)\<rparr>"
proof -
  let ?gs = "db_games db"
  let ?t1 = "map (update_winner ?gs) (db_predictions db)"
  have s: "update_spread ?gs p = Inr (projr (update_spread ?gs p))" for p
    using update_in_range(1) [OF assms(2), of p] by (cases "update_spread ?gs p") simp_all
  have t: "update_total ?gs p = Inr (projr (update_total ?gs p))" for p
    using update_in_range(2) [OF assms(2), of p] by (cases "update_total ?gs p") simp_all
  have 2: "update_rows (update_spread ?gs) ?t1
      = Inr (map (\<lambda>x. projr (update_spread ?gs (update_winner ?gs x))) (db_predictions db))"
    using update_rows_map [of ?t1 "update_spread ?gs" "\<lambda>p. projr (update_spread ?gs p)"]
    by (simp add: comp_def s [symmetric])
  have 3: "update_rows (update_total ?gs)
        (map (\<lambda>x. projr (update_spread ?gs (update_winner ?gs x))) (db_predictions db))
      = Inr (map (\<lambda>p. projr (update_total ?gs
                  (projr (update_spread ?gs (update_winner ?gs p))))) (db_predictions db))"
    using update_rows_map [of
        "map (\<lambda>x. projr (update_spread ?gs (update_winner ?gs x))) (db_predictions db)"
        "update_total ?gs" "\<lambda>p. projr (update_total ?gs p)"]
    by (simp add: comp_def t [symmetric])
  show ?thesis
    using assms(1)
    by (simp add: update_prediction_accuracy_def update_prediction_accuracy_try_def
        get_connection_def ebind_simps Let_def 2 3)
qed

lemma update_prediction_accuracy_down:
  "\<not> db_up db \<Longrightarrow> update_prediction_accuracy db = db"
  by (simp add: update_prediction_accuracy_def update_prediction_accuracy_try_def
      get_connection_def ebind_simps)

text \<open>
  C5. For a completed game with both scores and a prediction row of that game whose
  \<open>actual_value\<close> is unset, the backfill sets the flag by the fixed bands: a winner
  prediction is correct iff its side (above 0.5 or not) is the side of the result, a
  spread prediction iff it is within 3 of home minus away, a total prediction iff it is
  within 5 of home plus away. Game identifiers are unique, the store is reachable, and
  the difference and the sum of the scores of every game fit the integer type (else
  the statements raise and nothing is written).
\<close>

theorem reconciliation_tolerance_bands:
  assumes "db_up db" and "distinct (map g_id (db_games db))"
    and "g \<in> set (db_games db)" and "status g = ''completed''"
    and "home_score g = Some h" and "away_score g = Some a"
    and "i < length (db_predictions db)" and "p = db_predictions db ! i"
    and "game_id p = g_id g" and "actual_value p = None"
    and "\<forall>g' \<in> set (db_games db). \<forall>x y. home_score g' = Some x \<longrightarrow> away_score g' = Some y \<longrightarrow>
           pg_integer (x - y) \<and> pg_integer (x + y)"
  shows "(prediction_type p = ''winner'' \<longrightarrow>
            is_correct (db_predictions (update_prediction_accuracy db) ! i)
              = Some ((predicted_value p > 0.5) = (h > a)) \<and>
            actual_value (db_predictions (update_prediction_accuracy db) ! i)
              = Some (if h > a then 1 else 0)) \<and>
         (prediction_type p = ''spread'' \<longrightarrow>
            is_correct (db_predictions (update_prediction_accuracy db) ! i)
              = Some (\<bar>predicted_value p - real_of_int (h - a)\<bar> \<le> 3) \<and>
            actual_value (db_predictions (update_prediction_accuracy db) ! i)
              = Some (real_of_int (h - a))) \<and>
         (prediction_type p = ''total'' \<longrightarrow>
            is_correct (db_predictions (update_prediction_accuracy db) ! i)
              = Some (\<bar>predicted_value p - real_of_int (h + a)\<bar> \<le> 5) \<and>
            actual_value (db_predictions (update_prediction_accuracy db) ! i)
              = Some (real_of_int (h + a)))"
proof -
  let ?gs = "db_games db"
  have j: "joined_game ?gs p = Some (h, a)"
    using assms(2-6,9) by (rule joined_game_found)
  have range: "pg_integer (h - a)" "pg_integer (h + a)"
    using assms(3,5,6,11) by blast+
  have nth: "db_predictions (update_prediction_accuracy db) ! i
      = projr (update_total ?gs (projr (update_spread ?gs (update_winner ?gs p))))"
    using assms(7,8) by (simp add: update_prediction_accuracy_in_range [OF assms(1,11)])
  have w: "prediction_type p = ''winner'' \<Longrightarrow>
      projr (update_total ?gs (projr (update_spread ?gs (update_winner ?gs p))))
        = p\<lparr>actual_value := Some (if h > a then 1 else 0),
            is_correct := Some ((predicted_value p > 0.5) = (h > a))\<rparr>"
    using j assms(10) by (auto simp: update_winner_def update_spread_def update_total_def)
  have s: "prediction_type p = ''spread'' \<Longrightarrow>
      projr (update_total ?gs (projr (update_spread ?gs (update_winner ?gs p))))
        = p\<lparr>actual_value := Some (real_of_int (h - a)),
            is_correct := Some (\<bar>predicted_value p - real_of_int (h - a)\<bar> \<le> 3)\<rparr>"
    using j assms(10) range
    by (simp add: update_winner_def update_spread_def update_total_def pg_int4_def ebind_simps)
  have t: "prediction_type p = ''total'' \<Longrightarrow>
      projr (update_total ?gs (projr (update_spread ?gs (update_winner ?gs p))))
        = p\<lparr>actual_value := Some (real_of_int (h + a)),
            is_correct := Some (\<bar>predicted_value p - real_of_int (h + a)\<bar> \<le> 5)\<rparr>"
    using j assms(10) range
    by (simp add: update_winner_def update_spread_def update_total_def pg_int4_def ebind_simps)
  show ?thesis
    unfolding nth using w s t by simp
qed

theorem reconciliation_tolerance_bands_witness:
  "is_correct (db_predictions (update_prediction_accuracy
      \<lparr>db_up = True,
       db_games = [\<lparr>g_id = ''g1'', home_team_id = ''BOS'', away_team_id = ''NYK'',
                    home_score = Some 100, away_score = Some 90, game_date = 1,
                    status = ''completed''\<rparr>],
       db_predictions = [\<lparr>game_id = ''g1'', model_name = ''Project Apex ML'',
                          prediction_type = ''spread'', predicted_value = 7, confidence = 0.35,
                          actual_value = None, is_correct = None, created_at = 0\<rparr>]\<rparr>) ! 0)
     = Some True"
  using reconciliation_tolerance_bands [where
      db = "\<lparr>db_up = True,
       db_games = [\<lparr>g_id = ''g1'', home_team_id = ''BOS'', away_team_id = ''NYK'',
                    home_score = Some 100, away_score = Some 90, game_date = 1,
                    status = ''completed''\<rparr>],
       db_predictions = [\<lparr>game_id = ''g1'', model_name = ''Project Apex ML'',
                          prediction_type = ''spread'', predicted_value = 7, confidence = 0.35,
                          actual_value = None, is_correct = None, created_at = 0\<rparr>]\<rparr>"
      and g = "\<lparr>g_id = ''g1'', home_team_id = ''BOS'', away_team_id = ''NYK'',
                    home_score = Some 100, away_score = Some 90, game_date = 1,
                    status = ''completed''\<rparr>"
      and h = 100 and a = 90 and i = 0
      and p = "\<lparr>game_id = ''g1'', model_name = ''Project Apex ML'',
                          prediction_type = ''spread'', predicted_value = 7, confidence = 0.35,
                          actual_value = None, is_correct = None, created_at = 0\<rparr>"]
  by (simp add: pg_integer_def)

text \<open>
  Outside that range the run raises and is rolled back: with both scores 2147483647 the
  sum does not fit, and a total prediction of the game keeps its unset fields.
\<close>

lemma update_prediction_accuracy_out_of_range:
  "update_prediction_accuracy
      \<lparr>db_up = True,
       db_games = [\<lparr>g_id = ''g1'', home_team_id = ''BOS'', away_team_id = ''NYK'',
                    home_score = Some 2147483647, away_score = Some 2147483647, game_date = 1,
                    status = ''completed''\<rparr>],
       db_predictions = [\<lparr>game_id = ''g1'', model_name = ''Project Apex ML'',
                          prediction_type = ''total'', predicted_value = 10, confidence = 0.1,
                          actual_value = None, is_correct = None, created_at = 0\<rparr>]\<rparr>
   = \<lparr>db_up = True,
       db_games = [\<lparr>g_id = ''g1'', home_team_id = ''BOS'', away_team_id = ''NYK'',
                    home_score = Some 2147483647, away_score = Some 2147483647, game_date = 1,
                    status = ''completed''\<rparr>],
       db_predictions = [\<lparr>game_id = ''g1'', model_name = ''Project Apex ML'',
                          prediction_type = ''total'', predicted_value = 10, confidence = 0.1,
                          actual_value = None, is_correct = None, created_at = 0\<rparr>]\<rparr>"
  by (simp add: update_prediction_accuracy_def update_prediction_accuracy_try_def
      get_connection_def ebind_simps update_winner_def update_spread_def update_total_def
      joined_game_def scored_completed_def pg_int4_def pg_integer_def)

lemma update_row_sets_or_keeps:
  assumes "update_spread gs (update_winner gs p) = Inr q" and "update_total gs q = Inr r"
  shows "(r = p \<and> update_winner gs p = p \<and> update_spread gs p = Inr p \<and>
          update_total gs p = Inr p) \<or> actual_value r \<noteq> None"
proof (cases "joined_game gs p")
  case None
  with assms show ?thesis by (auto simp: update_unjoined)
next
  case (Some ha)
  obtain h a where ha: "ha = (h, a)" by (cases ha)
  show ?thesis
  proof (cases "actual_value p")
    case v: (Some v)
    with assms show ?thesis by (auto simp: update_populated)
  next
    case None
    consider "prediction_type p = ''winner''" | "prediction_type p = ''spread''"
      | "prediction_type p = ''total''"
      | "prediction_type p \<noteq> ''winner''" "prediction_type p \<noteq> ''spread''"
        "prediction_type p \<noteq> ''total''"
      by blast
    then show ?thesis
    proof cases
      case 1
      with None Some ha assms show ?thesis
        by (auto simp: update_winner_def update_spread_def update_total_def)
    next
      case 2
      with None Some ha assms show ?thesis
        by (auto simp: update_winner_def update_spread_def update_total_def
            ebind_def split: sum.splits)
    next
      case 3
      with None Some ha assms show ?thesis
        by (auto simp: update_winner_def update_spread_def update_total_def
            ebind_def split: sum.splits)
    next
      case 4
      with None Some ha assms show ?thesis
        by (auto simp: update_winner_def update_spread_def update_total_def)
    qed
  qed
qed

lemma update_row_settles:
  assumes "update_spread gs (update_winner gs p) = Inr q" and "update_total gs q = Inr r"
  shows "update_winner gs r = r \<and> update_spread gs r = Inr r \<and> update_total gs r = Inr r"
  using update_row_sets_or_keeps [OF assms]
proof
  assume "r = p \<and> update_winner gs p = p \<and> update_spread gs p = Inr p \<and>
          update_total gs p = Inr p"
  then show ?thesis by simp
next
  assume "actual_value r \<noteq> None"
  then obtain v where "actual_value r = Some v" by auto
  then show ?thesis by (simp add: update_populated)
qed

text \<open>
  C6. The backfill is write-once and idempotent: a second run changes nothing, the table
  keeps its rows, and a row whose \<open>actual_value\<close> is already set is left as it is
  (with its \<open>is_correct\<close>).
\<close>

theorem reconciliation_write_once:
  "update_prediction_accuracy (update_prediction_accuracy db) = update_prediction_accuracy db \<and>
   length (db_predictions (update_prediction_accuracy db)) = length (db_predictions db) \<and>
   db_games (update_prediction_accuracy db) = db_games db \<and>
   (\<forall>i < length (db_predictions db).
      actual_value (db_predictions db ! i) \<noteq> None \<longrightarrow>
      db_predictions (update_prediction_accuracy db) ! i = db_predictions db ! i)"
proof (cases "update_prediction_accuracy_try db")
  case (Inl e)
  then have "update_prediction_accuracy db = db"
    by (simp add: update_prediction_accuracy_def)
  then show ?thesis by simp
next
  case (Inr db')
  let ?gs = "db_games db"
  let ?ps = "db_predictions db"
  from Inr obtain t2 t3 where up: "db_up db"
    and 2: "update_rows (update_spread ?gs) (map (update_winner ?gs) ?ps) = Inr t2"
    and 3: "update_rows (update_total ?gs) t2 = Inr t3"
    and db': "db' = db\<lparr>db_predictions := t3\<rparr>"
    by (auto simp: update_prediction_accuracy_try_def get_connection_def ebind_def Let_def
        split: sum.splits if_splits)
  have eq: "update_prediction_accuracy db = db'"
    using Inr by (simp add: update_prediction_accuracy_def)
  from 2 have a2: "list_all2 (\<lambda>x y. update_spread ?gs x = Inr y) (map (update_winner ?gs) ?ps) t2"
    by (simp add: update_rows_all2)
  from 3 have a3: "list_all2 (\<lambda>x y. update_total ?gs x = Inr y) t2 t3"
    by (simp add: update_rows_all2)
  have l2: "length t2 = length ?ps"
    using a2 by (auto dest: list_all2_lengthD)
  have l3: "length t3 = length ?ps"
    using a3 l2 by (auto dest: list_all2_lengthD)
  have rows: "update_spread ?gs (update_winner ?gs (?ps ! i)) = Inr (t2 ! i) \<and>
              update_total ?gs (t2 ! i) = Inr (t3 ! i)" if "i < length ?ps" for i
    using that a2 a3 l2 by (simp add: list_all2_conv_all_nth)
  have fixed: "update_winner ?gs r = r \<and> update_spread ?gs r = Inr r \<and>
               update_total ?gs r = Inr r" if "r \<in> set t3" for r
  proof -
    from that obtain i where i: "i < length t3" and r: "r = t3 ! i"
      by (auto simp: in_set_conv_nth)
    from rows [of i] i l3 have "update_spread ?gs (update_winner ?gs (?ps ! i)) = Inr (t2 ! i)"
      and "update_total ?gs (t2 ! i) = Inr r"
      using r by simp_all
    then show ?thesis by (rule update_row_settles)
  qed
  have w: "map (update_winner ?gs) t3 = t3"
    using fixed by (simp add: map_idI)
  have s: "update_rows (update_spread ?gs) t3 = Inr t3"
    using fixed by (simp add: update_rows_fixed)
  have t: "update_rows (update_total ?gs) t3 = Inr t3"
    using fixed by (simp add: update_rows_fixed)
  have idem: "update_prediction_accuracy db' = db'"
    using up
    by (simp add: db' update_prediction_accuracy_def update_prediction_accuracy_try_def
        get_connection_def ebind_simps Let_def w s t)
  have kept: "t3 ! i = ?ps ! i" if "i < length ?ps" and "actual_value (?ps ! i) \<noteq> None" for i
  proof -
    from that(2) obtain v where v: "actual_value (?ps ! i) = Some v" by auto
    from rows [OF that(1)] have "t2 ! i = ?ps ! i"
      by (simp add: update_populated [OF v])
    with rows [OF that(1)] show ?thesis
      by (simp add: update_populated [OF v])
  qed
  show ?thesis
    unfolding eq idem using kept l3 by (simp add: db')
qed

theorem reconciliation_write_once_witness:
  "db_predictions (update_prediction_accuracy
      \<lparr>db_up = True,
       db_games = [\<lparr>g_id = ''g1'', home_team_id = ''BOS'', away_team_id = ''NYK'',
                    home_score = Some 100, away_score = Some 90, game_date = 1,
                    status = ''completed''\<rparr>],
       db_predictions = [\<lparr>game_id = ''g1'', model_name = ''Project Apex ML'',
                          prediction_type = ''spread'', predicted_value = 2, confidence = 0.1,
                          actual_value = Some 12, is_correct = Some True,
                          created_at = 0\<rparr>]\<rparr>) ! 0
     = \<lparr>game_id = ''g1'', model_name = ''Project Apex ML'',
        prediction_type = ''spread'', predicted_value = 2, confidence = 0.1,
        actual_value = Some 12, is_correct = Some True, created_at = 0\<rparr>"
  using reconciliation_write_once [of
      "\<lparr>db_up = True,
       db_games = [\<lparr>g_id = ''g1'', home_team_id = ''BOS'', away_team_id = ''NYK'',
                    home_score = Some 100, away_score = Some 90, game_date = 1,
                    status = ''completed''\<rparr>],
       db_predictions = [\<lparr>game_id = ''g1'', model_name = ''Project Apex ML'',
                          prediction_type = ''spread'', predicted_value = 2, confidence = 0.1,
                          actual_value = Some 12, is_correct = Some True,
                          created_at = 0\<rparr>]\<rparr>"]
  by simp

section \<open>Storing predictions: one row per key\<close>

lemma prediction_key_update:
  "prediction_key (p\<lparr>predicted_value := v, confidence := c, created_at := n\<rparr>) = prediction_key p"
  by (simp add: prediction_key_def)

lemma upsert_prediction_present:
  assumes "k \<in> set (map prediction_key tbl)" and "k = (g, m, t)"
  shows "upsert_prediction tbl g m t v c n =
     map (\<lambda>p. if prediction_key p = k
              then p\<lparr>predicted_value := v, confidence := c, created_at := n\<rparr> else p) tbl"
proof -
  from assms have "find (\<lambda>p. prediction_key p = (g, m, t)) tbl \<noteq> None"
    by (auto simp: find_None_iff)
  with assms(2) show ?thesis
    by (auto simp: upsert_prediction_def split: option.splits)
qed

lemma upsert_prediction_absent:
  assumes "k \<notin> set (map prediction_key tbl)" and "k = (g, m, t)"
  shows "upsert_prediction tbl g m t v c n =
     tbl @ [\<lparr>game_id = g, model_name = m, prediction_type = t,
             predicted_value = v, confidence = c,
             actual_value = None, is_correct = None, created_at = n\<rparr>]"
proof -
  from assms have "find (\<lambda>p. prediction_key p = (g, m, t)) tbl = None"
    by (force simp: find_None_iff image_iff)
  then show ?thesis
    by (simp add: upsert_prediction_def)
qed

lemma upsert_prediction_keys:
  "map prediction_key (upsert_prediction tbl g m t v c n) =
     (if (g, m, t) \<in> set (map prediction_key tbl) then map prediction_key tbl
      else map prediction_key tbl @ [(g, m, t)])"
proof (cases "(g, m, t) \<in> set (map prediction_key tbl)")
  case True
  have "map prediction_key (map (\<lambda>p. if prediction_key p = (g, m, t)
              then p\<lparr>predicted_value := v, confidence := c, created_at := n\<rparr> else p) tbl)
        = map prediction_key tbl"
    by (induction tbl) (simp_all add: prediction_key_update)
  with True show ?thesis
    by (simp add: upsert_prediction_present [OF True refl])
next
  case False
  then show ?thesis
    by (simp add: upsert_prediction_absent [OF False refl] prediction_key_def)
qed

lemma upsert_prediction_distinct:
  "distinct (map prediction_key tbl) \<Longrightarrow>
   distinct (map prediction_key (upsert_prediction tbl g m t v c n))"
  by (simp add: upsert_prediction_keys)

lemma filter_key_single:
  assumes "distinct (map prediction_key tbl)" and "k \<in> set (map prediction_key tbl)"
  shows "\<exists>p0. filter (\<lambda>p. prediction_key p = k) tbl = [p0]"
  using assms
proof (induction tbl)
  case Nil
  then show ?case by simp
next
  case (Cons x tbl)
  show ?case
  proof (cases "prediction_key x = k")
    case True
    with Cons.prems have "filter (\<lambda>p. prediction_key p = k) tbl = []"
      by (force simp: filter_empty_conv image_iff)
    with True show ?thesis by simp
  next
    case False
    with Cons show ?thesis by auto
  qed
qed

lemma upsert_prediction_row:
  assumes "distinct (map prediction_key tbl)"
  shows "\<exists>row. filter (\<lambda>p. prediction_key p = (g, m, t)) (upsert_prediction tbl g m t v c n) = [row]
           \<and> predicted_value row = v \<and> confidence row = c"
proof (cases "(g, m, t) \<in> set (map prediction_key tbl)")
  case True
  let ?f = "\<lambda>p. if prediction_key p = (g, m, t)
              then p\<lparr>predicted_value := v, confidence := c, created_at := n\<rparr> else p"
  from filter_key_single [OF assms True]
  obtain p0 where p0: "filter (\<lambda>p. prediction_key p = (g, m, t)) tbl = [p0]" ..
  then have "p0 \<in> set (filter (\<lambda>p. prediction_key p = (g, m, t)) tbl)"
    by simp
  then have k0: "prediction_key p0 = (g, m, t)"
    by simp
  have "filter (\<lambda>p. prediction_key p = (g, m, t)) (map ?f tbl)
        = map ?f (filter (\<lambda>p. prediction_key p = (g, m, t)) tbl)"
    by (induction tbl) (simp_all add: prediction_key_update)
  with p0 k0 have "filter (\<lambda>p. prediction_key p = (g, m, t)) (map ?f tbl)
        = [p0\<lparr>predicted_value := v, confidence := c, created_at := n\<rparr>]"
    by simp
  then show ?thesis
    by (simp add: upsert_prediction_present [OF True refl])
next
  case False
  then have "filter (\<lambda>p. prediction_key p = (g, m, t)) tbl = []"
    by (force simp: filter_empty_conv image_iff)
  then show ?thesis
    by (simp add: upsert_prediction_absent [OF False refl] prediction_key_def)
qed

lemma upsert_prediction_other:
  assumes "k \<noteq> (g, m, t)"
  shows "filter (\<lambda>p. prediction_key p = k) (upsert_prediction tbl g m t v c n)
         = filter (\<lambda>p. prediction_key p = k) tbl"
proof (cases "(g, m, t) \<in> set (map prediction_key tbl)")
  case True
  let ?f = "\<lambda>p. if prediction_key p = (g, m, t)
              then p\<lparr>predicted_value := v, confidence := c, created_at := n\<rparr> else p"
  have "filter (\<lambda>p. prediction_key p = k) (map ?f tbl) = filter (\<lambda>p. prediction_key p = k) tbl"
    using assms by (induction tbl) (auto simp: prediction_key_update)
  then show ?thesis
    by (simp add: upsert_prediction_present [OF True refl])
next
  case False
  with assms show ?thesis
    by (auto simp: upsert_prediction_absent [OF False refl] prediction_key_def)
qed

lemma store_one_upsert:
  assumes "store_one ni tbl gid ps ptype vk ck n = Inr tbl'"
  shows "\<exists>m v c. tbl' = upsert_prediction tbl gid m ptype v c n"
  using assms
  by (auto simp: store_one_def ebind_def split: sum.splits)

lemma store_one_distinct:
  assumes "store_one ni tbl gid ps ptype vk ck n = Inr tbl'"
    and "distinct (map prediction_key tbl)"
  shows "distinct (map prediction_key tbl')"
  using store_one_upsert [OF assms(1)] assms(2)
  by (auto simp: upsert_prediction_distinct)

lemma store_predictions_distinct:
  assumes "distinct (map prediction_key (db_predictions db))"
  shows "distinct (map prediction_key (db_predictions (store_predictions ni db gid ps n)))"
proof (cases "store_predictions_try ni db gid ps n")
  case (Inl e)
  with assms show ?thesis by (simp add: store_predictions_def)
next
  case (Inr db')
  then obtain t1 t2 t3 where
      1: "store_one ni (db_predictions db) gid ps
            ''winner'' ''home_win_probability'' ''outcome'' n = Inr t1"
    and 2: "store_one ni t1 gid ps ''spread'' ''predicted_spread'' ''spread'' n = Inr t2"
    and 3: "store_one ni t2 gid ps ''total'' ''predicted_total'' ''total'' n = Inr t3"
    and db': "db_predictions db' = t3"
    by (auto simp: store_predictions_try_def get_connection_def ebind_def
        split: sum.splits if_splits)
  from store_one_distinct [OF 3 store_one_distinct [OF 2 store_one_distinct [OF 1 assms]]]
  show ?thesis
    using Inr db' by (simp add: store_predictions_def)
qed

lemma store_one_well_formed:
  assumes "getitem ps ''model_name'' = Inr (Str m)" and "getitem ps vk = Inr (Num v)"
    and "getitem ps ''confidence_scores'' = Inr (Dict cs)" and "getitem cs ck = Inr (Num c)"
  shows "store_one ni tbl gid ps ptype vk ck n = Inr (upsert_prediction tbl gid m ptype v c n)"
  using assms
  by (simp add: store_one_def ebind_simps subscript_def as_num_def as_str_def)

lemma store_predictions_well_formed:
  assumes "db_up db"
    and "getitem ps ''model_name'' = Inr (Str m)"
    and "getitem ps ''home_win_probability'' = Inr (Num w)"
    and "getitem ps ''predicted_spread'' = Inr (Num s)"
    and "getitem ps ''predicted_total'' = Inr (Num t)"
    and "getitem ps ''confidence_scores'' = Inr (Dict cs)"
    and "getitem cs ''outcome'' = Inr (Num cw)"
    and "getitem cs ''spread'' = Inr (Num csp)"
    and "getitem cs ''total'' = Inr (Num ct)"
  shows "store_predictions ni db gid ps n =
     db\<lparr>db_predictions :=
          upsert_prediction
            (upsert_prediction
              (upsert_prediction (db_predictions db) gid m ''winner'' w cw n)
              gid m ''spread'' s csp n)
            gid m ''total'' t ct n\<rparr>"
  using assms(1)
  by (simp add: store_predictions_def store_predictions_try_def get_connection_def ebind_simps
      store_one_well_formed [OF assms(2,3,6,7)] store_one_well_formed [OF assms(2,4,6,8)]
      store_one_well_formed [OF assms(2,5,6,9)])

lemma three_upserts_rows:
  fixes gid m :: string and w cw s csp t ct :: real and n :: int
  assumes "distinct (map prediction_key tbl)"
    and tbl': "tbl' = upsert_prediction
            (upsert_prediction (upsert_prediction tbl gid m ''winner'' w cw n)
              gid m ''spread'' s csp n)
            gid m ''total'' t ct n"
  shows "distinct (map prediction_key tbl')"
    and "\<exists>row. filter (\<lambda>p. prediction_key p = (gid, m, ''winner'')) tbl' = [row]
           \<and> predicted_value row = w \<and> confidence row = cw"
    and "\<exists>row. filter (\<lambda>p. prediction_key p = (gid, m, ''spread'')) tbl' = [row]
           \<and> predicted_value row = s \<and> confidence row = csp"
    and "\<exists>row. filter (\<lambda>p. prediction_key p = (gid, m, ''total'')) tbl' = [row]
           \<and> predicted_value row = t \<and> confidence row = ct"
proof -
  let ?t1 = "upsert_prediction tbl gid m ''winner'' w cw n"
  let ?t2 = "upsert_prediction ?t1 gid m ''spread'' s csp n"
  have d1: "distinct (map prediction_key ?t1)"
    using assms(1) by (rule upsert_prediction_distinct)
  have d2: "distinct (map prediction_key ?t2)"
    using d1 by (rule upsert_prediction_distinct)
  show "distinct (map prediction_key tbl')"
    unfolding tbl' using d2 by (rule upsert_prediction_distinct)
  have "filter (\<lambda>p. prediction_key p = (gid, m, ''winner'')) tbl'
        = filter (\<lambda>p. prediction_key p = (gid, m, ''winner'')) ?t1"
    unfolding tbl' by (simp add: upsert_prediction_other)
  with upsert_prediction_row [OF assms(1), of gid m "''winner''" w cw n]
  show "\<exists>row. filter (\<lambda>p. prediction_key p = (gid, m, ''winner'')) tbl' = [row]
           \<and> predicted_value row = w \<and> confidence row = cw"
    by simp
  have "filter (\<lambda>p. prediction_key p = (gid, m, ''spread'')) tbl'
        = filter (\<lambda>p. prediction_key p = (gid, m, ''spread'')) ?t2"
    unfolding tbl' by (simp add: upsert_prediction_other)
  with upsert_prediction_row [OF d1, of gid m "''spread''" s csp n]
  show "\<exists>row. filter (\<lambda>p. prediction_key p = (gid, m, ''spread'')) tbl' = [row]
           \<and> predicted_value row = s \<and> confidence row = csp"
    by simp
  from upsert_prediction_row [OF d2, of gid m "''total''" t ct n]
  show "\<exists>row. filter (\<lambda>p. prediction_key p = (gid, m, ''total'')) tbl' = [row]
           \<and> predicted_value row = t \<and> confidence row = ct"
    unfolding tbl' by simp
qed

text \<open>
  C9. Two calls of \<open>store_predictions\<close> for the same game and model name, with
  different values, leave exactly one row for each of the three keys, holding the value
  and confidence of the second call; and every call, whatever its arguments, keeps the
  keys of the table distinct. The two prediction dicts carry the entries that the
  statements read, and the store is reachable.
\<close>

theorem store_predictions_upsert:
  assumes "db_up db" and "distinct (map prediction_key (db_predictions db))"
    and "getitem ps_a ''model_name'' = Inr (Str m)"
    and "getitem ps_a ''home_win_probability'' = Inr (Num w_a)"
    and "getitem ps_a ''predicted_spread'' = Inr (Num s_a)"
    and "getitem ps_a ''predicted_total'' = Inr (Num t_a)"
    and "getitem ps_a ''confidence_scores'' = Inr (Dict cs_a)"
    and "getitem cs_a ''outcome'' = Inr (Num cw_a)"
    and "getitem cs_a ''spread'' = Inr (Num csp_a)"
    and "getitem cs_a ''total'' = Inr (Num ct_a)"
    and "getitem ps_b ''model_name'' = Inr (Str m)"
    and "getitem ps_b ''home_win_probability'' = Inr (Num w_b)"
    and "getitem ps_b ''predicted_spread'' = Inr (Num s_b)"
    and "getitem ps_b ''predicted_total'' = Inr (Num t_b)"
    and "getitem ps_b ''confidence_scores'' = Inr (Dict cs_b)"
    and "getitem cs_b ''outcome'' = Inr (Num cw_b)"
    and "getitem cs_b ''spread'' = Inr (Num csp_b)"
    and "getitem cs_b ''total'' = Inr (Num ct_b)"
  shows "(\<exists>row. filter (\<lambda>p. prediction_key p = (gid, m, ''winner''))
              (db_predictions (store_predictions numeric_in
                (store_predictions numeric_in db gid ps_a n_a) gid ps_b n_b))
              = [row] \<and> predicted_value row = w_b \<and> confidence row = cw_b) \<and>
         (\<exists>row. filter (\<lambda>p. prediction_key p = (gid, m, ''spread''))
              (db_predictions (store_predictions numeric_in
                (store_predictions numeric_in db gid ps_a n_a) gid ps_b n_b))
              = [row] \<and> predicted_value row = s_b \<and> confidence row = csp_b) \<and>
         (\<exists>row. filter (\<lambda>p. prediction_key p = (gid, m, ''total''))
              (db_predictions (store_predictions numeric_in
                (store_predictions numeric_in db gid ps_a n_a) gid ps_b n_b))
              = [row] \<and> predicted_value row = t_b \<and> confidence row = ct_b) \<and>
         (\<forall>ni' db' gid' ps' n'. distinct (map prediction_key (db_predictions db')) \<longrightarrow>
              distinct (map prediction_key (db_predictions (store_predictions ni' db' gid' ps' n'))))"
proof -
  let ?db1 = "store_predictions numeric_in db gid ps_a n_a"
  have up1: "db_up ?db1"
    using assms(1) by (simp add: store_predictions_well_formed [OF assms(1,3-10)])
  have d1: "distinct (map prediction_key (db_predictions ?db1))"
    using assms(2) by (rule store_predictions_distinct)
  have eq: "db_predictions (store_predictions numeric_in ?db1 gid ps_b n_b) =
      upsert_prediction
        (upsert_prediction
          (upsert_prediction (db_predictions ?db1) gid m ''winner'' w_b cw_b n_b)
          gid m ''spread'' s_b csp_b n_b)
        gid m ''total'' t_b ct_b n_b"
    by (simp add: store_predictions_well_formed [OF up1 assms(11-18)])
  from three_upserts_rows(2-4) [OF d1 eq] store_predictions_distinct
  show ?thesis by blast
qed

theorem store_predictions_upsert_witness:
  "map predicted_value
     (filter (\<lambda>p. prediction_key p = (''g1'', ''Project Apex ML'', ''spread''))
        (db_predictions
          (store_predictions (\<lambda>s. None)
            (store_predictions (\<lambda>s. None) \<lparr>db_up = True, db_games = [], db_predictions = []\<rparr> ''g1''
               [(''home_win_probability'', Num 0.6), (''away_win_probability'', Num 0.4),
                (''predicted_spread'', Num 4), (''predicted_total'', Num 210),
                (''confidence_scores'',
                   Dict [(''outcome'', Num 0.2), (''spread'', Num 0.2), (''total'', Num 0.8)]),
                (''model_name'', Str ''Project Apex ML''), (''prediction_time'', Str ''t1'')] 1)
            ''g1''
            [(''home_win_probability'', Num 0.7), (''away_win_probability'', Num 0.3),
             (''predicted_spread'', Num 6), (''predicted_total'', Num 215),
             (''confidence_scores'',
                Dict [(''outcome'', Num 0.4), (''spread'', Num 0.3), (''total'', Num 0.8)]),
             (''model_name'', Str ''Project Apex ML''), (''prediction_time'', Str ''t2'')] 2)))
   = [6]"
proof -
  have "\<exists>row. filter (\<lambda>p. prediction_key p = (''g1'', ''Project Apex ML'', ''spread''))
        (db_predictions
          (store_predictions (\<lambda>s. None)
            (store_predictions (\<lambda>s. None) \<lparr>db_up = True, db_games = [], db_predictions = []\<rparr> ''g1''
               [(''home_win_probability'', Num 0.6), (''away_win_probability'', Num 0.4),
                (''predicted_spread'', Num 4), (''predicted_total'', Num 210),
                (''confidence_scores'',
                   Dict [(''outcome'', Num 0.2), (''spread'', Num 0.2), (''total'', Num 0.8)]),
                (''model_name'', Str ''Project Apex ML''), (''prediction_time'', Str ''t1'')] 1)
            ''g1''
            [(''home_win_probability'', Num 0.7), (''away_win_probability'', Num 0.3),
             (''predicted_spread'', Num 6), (''predicted_total'', Num 215),
             (''confidence_scores'',
                Dict [(''outcome'', Num 0.4), (''spread'', Num 0.3), (''total'', Num 0.8)]),
             (''model_name'', Str ''Project Apex ML''), (''prediction_time'', Str ''t2'')] 2))
        = [row] \<and> predicted_value row = 6 \<and> confidence row = 0.3"
    using store_predictions_upsert [where numeric_in = "\<lambda>s. None" and db = "\<lparr>db_up = True, db_games = [], db_predictions = []\<rparr>"
        and gid = "''g1''" and m = "''Project Apex ML''" and n_a = 1 and n_b = 2
        and ps_a = "[(''home_win_probability'', Num 0.6), (''away_win_probability'', Num 0.4),
                (''predicted_spread'', Num 4), (''predicted_total'', Num 210),
                (''confidence_scores'',
                   Dict [(''outcome'', Num 0.2), (''spread'', Num 0.2), (''total'', Num 0.8)]),
                (''model_name'', Str ''Project Apex ML''), (''prediction_time'', Str ''t1'')]"
        and cs_a = "[(''outcome'', Num 0.2), (''spread'', Num 0.2), (''total'', Num 0.8)]"
        and w_a = "0.6" and s_a = 4 and t_a = 210 and cw_a = "0.2" and csp_a = "0.2" and ct_a = "0.8"
        and ps_b = "[(''home_win_probability'', Num 0.7), (''away_win_probability'', Num 0.3),
             (''predicted_spread'', Num 6), (''predicted_total'', Num 215),
             (''confidence_scores'',
                Dict [(''outcome'', Num 0.4), (''spread'', Num 0.3), (''total'', Num 0.8)]),
             (''model_name'', Str ''Project Apex ML''), (''prediction_time'', Str ''t2'')]"
        and cs_b = "[(''outcome'', Num 0.4), (''spread'', Num 0.3), (''total'', Num 0.8)]"
        and w_b = "0.7" and s_b = 6 and t_b = 215 and cw_b = "0.4" and csp_b = "0.3" and ct_b = "0.8"]
    by (simp add: getitem_def)
  then show ?thesis by auto
qed

section \<open>The window of the team statistics\<close>

lemma getitem_win_percentage:
  "df \<noteq> [] \<Longrightarrow>
   getitem (compute_team_stats df) ''win_percentage'' =
     Inr (real (count_wins (team_scores_of df) (opponent_scores_of df)) / real (length df))"
  by (simp add: getitem_def compute_team_stats_def Let_def team_scores_of_def)

lemma team_row_scores:
  assumes "home_score g = Some h" and "away_score g = Some a"
  shows "(if r_venue (team_row_of team_id g) = ''home''
          then r_home_score (team_row_of team_id g) else r_away_score (team_row_of team_id g))
         = (if home_team_id g = team_id then h else a)"
    and "(if r_venue (team_row_of team_id g) = ''home''
          then r_away_score (team_row_of team_id g) else r_home_score (team_row_of team_id g))
         = (if home_team_id g = team_id then a else h)"
  using assms by (simp_all add: team_row_of_def)

text \<open>
  The number of wins that the code counts through the venue column of the rows is the
  number of games in which the team, at home or away, scored more than its opponent.
\<close>

lemma count_wins_games:
  assumes "\<forall>g \<in> set sel. team_game team_id g"
  shows "count_wins (team_scores_of (map (team_row_of team_id) sel))
           (opponent_scores_of (map (team_row_of team_id) sel))
         = length (filter (\<lambda>g. case (home_score g, away_score g) of
                                  (Some h, Some a) \<Rightarrow>
                                    if home_team_id g = team_id then a < h else h < a
                                | _ \<Rightarrow> False) sel)"
  using assms
proof (induction sel)
  case Nil
  then show ?case
    by (simp add: count_wins_def team_scores_of_def opponent_scores_of_def)
next
  case (Cons g sel)
  from Cons.prems obtain h a where hs: "home_score g = Some h" and as: "away_score g = Some a"
    by (auto simp: team_game_def scored_completed_def)
  from Cons have IH: "count_wins (team_scores_of (map (team_row_of team_id) sel))
           (opponent_scores_of (map (team_row_of team_id) sel))
         = length (filter (\<lambda>g. case (home_score g, away_score g) of
                                  (Some h, Some a) \<Rightarrow>
                                    if home_team_id g = team_id then a < h else h < a
                                | _ \<Rightarrow> False) sel)"
    by simp
  have "count_wins (team_scores_of (map (team_row_of team_id) (g # sel)))
           (opponent_scores_of (map (team_row_of team_id) (g # sel)))
        = (if (if home_team_id g = team_id then a < h else h < a) then 1 else 0)
          + count_wins (team_scores_of (map (team_row_of team_id) sel))
              (opponent_scores_of (map (team_row_of team_id) sel))"
    by (simp add: count_wins_def team_scores_of_def opponent_scores_of_def
        team_row_scores [OF hs as])
  with IH hs as show ?case
    by simp
qed

lemma win_percentage_games:
  assumes "sel \<noteq> []" and "\<forall>g \<in> set sel. team_game team_id g"
  shows "getitem (compute_team_stats (map (team_row_of team_id) sel)) ''win_percentage'' =
     Inr (real (length (filter (\<lambda>g. case (home_score g, away_score g) of
                                  (Some h, Some a) \<Rightarrow>
                                    if home_team_id g = team_id then a < h else h < a
                                | _ \<Rightarrow> False) sel))
          / real (length sel))"
  using assms(1) getitem_win_percentage [of "map (team_row_of team_id) sel"]
  by (simp add: count_wins_games [OF assms(2)])

lemma sorted_take_drop:
  assumes "sorted (map f xs)"
  shows "\<forall>x \<in> set (take n xs). \<forall>y \<in> set (drop n xs). f x \<le> f y"
proof -
  have "sorted (map f (take n xs) @ map f (drop n xs))"
    using assms by (simp flip: map_append)
  then show ?thesis
    by (auto simp: sorted_append)
qed

text \<open>
  C8, as amended. For a team with at least one qualifying game and a positive window
  \<open>games_back\<close>, on a reachable store, the selected games are the first \<open>games_back\<close>
  of the team's scored completed games in descending date order (all of them when there
  are fewer), no game left out is more recent than a selected one, and
  \<open>win_percentage\<close> is the number of selected games in which the team scored more than
  its opponent, divided by the number of selected games, which is the smaller of
  \<open>games_back\<close> and the number of qualifying games. The order of games of equal date
  is the server's choice (the model takes the table order); whichever games of the team
  the query returns, the value is their fraction of won games.
\<close>

theorem win_percentage_over_selected:
  assumes "db_up db" and "0 < games_back"
    and "filter (team_game team_id) (db_games db) \<noteq> []"
  shows "let recent = sort_key (\<lambda>g. - game_date g) (filter (team_game team_id) (db_games db));
             sel = take (nat games_back) recent;
             rest = drop (nat games_back) recent;
             won = (\<lambda>g. case (home_score g, away_score g) of
                          (Some h, Some a) \<Rightarrow> if home_team_id g = team_id then a < h else h < a
                        | _ \<Rightarrow> False)
         in team_games_query (db_games db) team_id games_back
              = Inr (map (team_row_of team_id) sel) \<and>
            set sel \<subseteq> {g \<in> set (db_games db). team_game team_id g} \<and>
            length sel = min (nat games_back)
                           (length (filter (team_game team_id) (db_games db))) \<and>
            sorted (map (\<lambda>g. - game_date g) sel) \<and>
            (\<forall>g \<in> set sel. \<forall>g' \<in> set rest. game_date g' \<le> game_date g) \<and>
            getitem (get_team_stats db team_id games_back) ''win_percentage'' =
              Inr (real (length (filter won sel)) / real (length sel)) \<and>
            (\<forall>sel'. sel' \<noteq> [] \<and> (\<forall>g \<in> set sel'. team_game team_id g) \<longrightarrow>
               getitem (compute_team_stats (map (team_row_of team_id) sel')) ''win_percentage'' =
                 Inr (real (length (filter won sel')) / real (length sel')))"
proof -
  let ?recent = "sort_key (\<lambda>g. - game_date g) (filter (team_game team_id) (db_games db))"
  let ?sel = "take (nat games_back) ?recent"
  let ?rest = "drop (nat games_back) ?recent"
  let ?df = "map (team_row_of team_id) ?sel"
  let ?won = "\<lambda>g. case (home_score g, away_score g) of
                          (Some h, Some a) \<Rightarrow> if home_team_id g = team_id then a < h else h < a
                        | _ \<Rightarrow> False"
  have q: "team_games_query (db_games db) team_id games_back = Inr ?df"
    using assms(2) by (simp add: team_games_query_def take_map)
  have sub: "set ?sel \<subseteq> {g \<in> set (db_games db). team_game team_id g}"
    using set_take_subset [of "nat games_back" ?recent] by auto
  then have all: "\<forall>g \<in> set ?sel. team_game team_id g"
    by blast
  have len: "length ?sel = min (nat games_back)
      (length (filter (team_game team_id) (db_games db)))"
    by simp
  have srt: "sorted (map (\<lambda>g. - game_date g) ?recent)"
    by (rule sorted_sort_key)
  then have s1: "sorted (map (\<lambda>g. - game_date g) ?sel)"
    by (simp add: take_map [symmetric] sorted_wrt_take)
  have s2: "\<forall>g \<in> set ?sel. \<forall>g' \<in> set ?rest. game_date g' \<le> game_date g"
    using sorted_take_drop [OF srt, of "nat games_back"] by auto
  have "?recent \<noteq> []"
    using assms(3) by (metis length_sort list.size(3) length_0_conv)
  with assms(2) have ne: "?sel \<noteq> []"
    by (cases ?recent) (auto simp: take_Cons' split: if_splits)
  then have "get_team_stats db team_id games_back = compute_team_stats ?df"
    using assms(1) q
    by (simp add: get_team_stats_def get_team_stats_try_def get_connection_def ebind_simps)
  then have w: "getitem (get_team_stats db team_id games_back) ''win_percentage'' =
      Inr (real (length (filter ?won ?sel)) / real (length ?sel))"
    using win_percentage_games [OF ne all] by simp
  have any: "\<forall>sel'. sel' \<noteq> [] \<and> (\<forall>g \<in> set sel'. team_game team_id g) \<longrightarrow>
      getitem (compute_team_stats (map (team_row_of team_id) sel')) ''win_percentage'' =
        Inr (real (length (filter ?won sel')) / real (length sel'))"
    using win_percentage_games by blast
  from q sub len s1 s2 w any show ?thesis
    unfolding Let_def by blast
qed

text \<open>
  A window of two over three games of the team, with a game of other teams and a
  scheduled game in the table: the two most recent games are selected, an away win and
  a home loss, and the older home win is left out.
\<close>

theorem win_percentage_over_selected_witness:
  "getitem (get_team_stats
      \<lparr>db_up = True,
       db_games =
         [\<lparr>g_id = ''g1'', home_team_id = ''BOS'', away_team_id = ''NYK'',
           home_score = Some 100, away_score = Some 90, game_date = 1,
           status = ''completed''\<rparr>,
          \<lparr>g_id = ''g2'', home_team_id = ''LAL'', away_team_id = ''NYK'',
           home_score = Some 88, away_score = Some 97, game_date = 2,
           status = ''completed''\<rparr>,
          \<lparr>g_id = ''g3'', home_team_id = ''BOS'', away_team_id = ''LAL'',
           home_score = Some 95, away_score = Some 99, game_date = 3,
           status = ''completed''\<rparr>,
          \<lparr>g_id = ''g4'', home_team_id = ''MIA'', away_team_id = ''BOS'',
           home_score = Some 100, away_score = Some 104, game_date = 4,
           status = ''completed''\<rparr>,
          \<lparr>g_id = ''g5'', home_team_id = ''BOS'', away_team_id = ''MIA'',
           home_score = None, away_score = None, game_date = 5,
           status = ''scheduled''\<rparr>],
       db_predictions = []\<rparr> ''BOS'' 2) ''win_percentage'' = Inr (1 / 2)"
  using win_percentage_over_selected [of
      "\<lparr>db_up = True,
       db_games =
         [\<lparr>g_id = ''g1'', home_team_id = ''BOS'', away_team_id = ''NYK'',
           home_score = Some 100, away_score = Some 90, game_date = 1,
           status = ''completed''\<rparr>,
          \<lparr>g_id = ''g2'', home_team_id = ''LAL'', away_team_id = ''NYK'',
           home_score = Some 88, away_score = Some 97, game_date = 2,
           status = ''completed''\<rparr>,
          \<lparr>g_id = ''g3'', home_team_id = ''BOS'', away_team_id = ''LAL'',
           home_score = Some 95, away_score = Some 99, game_date = 3,
           status = ''completed''\<rparr>,
          \<lparr>g_id = ''g4'', home_team_id = ''MIA'', away_team_id = ''BOS'',
           home_score = Some 100, away_score = Some 104, game_date = 4,
           status = ''completed''\<rparr>,
          \<lparr>g_id = ''g5'', home_team_id = ''BOS'', away_team_id = ''MIA'',
           home_score = None, away_score = None, game_date = 5,
           status = ''scheduled''\<rparr>],
       db_predictions = []\<rparr>" 2 "''BOS''"]
  by (simp add: team_game_def scored_completed_def Let_def)

text \<open>
  C8 as stated divides by the window size. A team with a single qualifying game, which
  it won at home by 100 to 90, has \<open>win_percentage\<close> 1 for the window 10: the one
  selected game is won, and one win over the window would be 1/10.
\<close>

theorem win_percentage_window_counterexample:
  "filter (team_game ''BOS'')
      [\<lparr>g_id = ''g1'', home_team_id = ''BOS'', away_team_id = ''NYK'',
        home_score = Some 100, away_score = Some 90, game_date = 1,
        status = ''completed''\<rparr>]
     = [\<lparr>g_id = ''g1'', home_team_id = ''BOS'', away_team_id = ''NYK'',
         home_score = Some 100, away_score = Some 90, game_date = 1,
         status = ''completed''\<rparr>] \<and>
   getitem (get_team_stats
      \<lparr>db_up = True,
       db_games = [\<lparr>g_id = ''g1'', home_team_id = ''BOS'', away_team_id = ''NYK'',
                    home_score = Some 100, away_score = Some 90, game_date = 1,
                    status = ''completed''\<rparr>],
       db_predictions = []\<rparr> ''BOS'' 10) ''win_percentage'' = Inr 1 \<and>
   getitem (get_team_stats
      \<lparr>db_up = True,
       db_games = [\<lparr>g_id = ''g1'', home_team_id = ''BOS'', away_team_id = ''NYK'',
                    home_score = Some 100, away_score = Some 90, game_date = 1,
                    status = ''completed''\<rparr>],
       db_predictions = []\<rparr> ''BOS'' 10) ''win_percentage''
     \<noteq> Inr (real (Suc 0) / real_of_int 10)"
  by (simp add: team_games_query_def team_game_def scored_completed_def team_row_of_def
      count_wins_def team_scores_of_def opponent_scores_of_def get_team_stats_def
      get_team_stats_try_def get_connection_def ebind_simps compute_team_stats_def
      getitem_def Let_def)

section \<open>The predictor models\<close>

lemma train_empty:
  "df_empty training_data \<Longrightarrow> train feature_cols label fit m training_data = (False, m)"
  by (simp add: train_def)

lemma outcome_predict_untrained:
  "\<not> is_trained m \<Longrightarrow> outcome_predict m features = (outcome_fallback, m)"
  by (simp add: outcome_predict_def split: option.splits)

lemma spread_predict_untrained:
  "\<not> is_trained m \<Longrightarrow> spread_predict m features = (spread_fallback, m)"
  by (simp add: spread_predict_def split: option.splits)

lemma total_predict_untrained:
  "\<not> is_trained m \<Longrightarrow> total_predict m features = (total_fallback, m)"
  by (simp add: total_predict_def split: option.splits)

text \<open>
  C3. For each of the three predictors, \<open>train\<close> on an empty corpus returns false and
  leaves the predictor as it was; if it was untrained, every later \<open>predict\<close> returns
  the neutral fallback (and again leaves the predictor as it was): probability 0.5,
  spread 0, total 220, each with confidence 0.
\<close>

theorem train_empty_corpus:
  assumes "df_empty training_data"
    and "\<not> is_trained om" and "\<not> is_trained sm" and "\<not> is_trained tm"
  shows "outcome_train fit_o om training_data = (False, om) \<and>
         spread_train fit_s sm training_data = (False, sm) \<and>
         total_train fit_t tm training_data = (False, tm) \<and>
         outcome_predict (snd (outcome_train fit_o om training_data)) features
           = ([(''home_win_probability'', 0.5), (''confidence'', 0)], om) \<and>
         spread_predict (snd (spread_train fit_s sm training_data)) features
           = ([(''predicted_spread'', 0), (''confidence'', 0)], sm) \<and>
         total_predict (snd (total_train fit_t tm training_data)) features
           = ([(''predicted_total'', 220), (''confidence'', 0)], tm)"
  using assms
  by (simp add: outcome_train_def spread_train_def total_train_def train_empty
      outcome_predict_untrained spread_predict_untrained total_predict_untrained
      outcome_fallback_def spread_fallback_def total_fallback_def)

theorem train_empty_corpus_witness:
  "outcome_train (\<lambda>X y. \<lparr>fit_scaler = None, fit_model = None, fit_raised = True\<rparr>)
      init_predictor \<lparr>df_columns = [], df_rows = []\<rparr> = (False, init_predictor) \<and>
   fst (outcome_predict
      (snd (outcome_train (\<lambda>X y. \<lparr>fit_scaler = None, fit_model = None, fit_raised = True\<rparr>)
         init_predictor \<lparr>df_columns = [], df_rows = []\<rparr>))
      \<lparr>df_columns = [''home_win_pct''], df_rows = [[''home_win_pct'' \<mapsto> 0.5]]\<rparr>)
     = [(''home_win_probability'', 0.5), (''confidence'', 0)] \<and>
   fst (spread_predict
      (snd (spread_train (\<lambda>X y. \<lparr>fit_scaler = None, fit_model = None, fit_raised = True\<rparr>)
         init_predictor \<lparr>df_columns = [], df_rows = []\<rparr>))
      \<lparr>df_columns = [''home_win_pct''], df_rows = [[''home_win_pct'' \<mapsto> 0.5]]\<rparr>)
     = [(''predicted_spread'', 0), (''confidence'', 0)] \<and>
   fst (total_predict
      (snd (total_train (\<lambda>X y. \<lparr>fit_scaler = None, fit_model = None, fit_raised = True\<rparr>)
         init_predictor \<lparr>df_columns = [], df_rows = []\<rparr>))
      \<lparr>df_columns = [''home_win_pct''], df_rows = [[''home_win_pct'' \<mapsto> 0.5]]\<rparr>)
     = [(''predicted_total'', 220), (''confidence'', 0)]"
proof -
  have e: "df_empty \<lparr>df_columns = [], df_rows = []\<rparr>"
    by (simp add: df_empty_def)
  have u: "\<not> is_trained (init_predictor :: 'p predictor)" for dummy :: 'p
    by (simp add: init_predictor_def)
  note t = train_empty_corpus [OF e u u u,
      of "\<lambda>X y. \<lparr>fit_scaler = None, fit_model = None, fit_raised = True\<rparr>"
         "\<lambda>X y. \<lparr>fit_scaler = None, fit_model = None, fit_raised = True\<rparr>"
         "\<lambda>X y. \<lparr>fit_scaler = None, fit_model = None, fit_raised = True\<rparr>"
         "\<lparr>df_columns = [''home_win_pct''], df_rows = [[''home_win_pct'' \<mapsto> 0.5]]\<rparr>"]
  from t have 1: "outcome_train (\<lambda>X y. \<lparr>fit_scaler = None, fit_model = None, fit_raised = True\<rparr>)
      init_predictor \<lparr>df_columns = [], df_rows = []\<rparr> = (False, init_predictor)"
    by (rule conjunct1)
  from t have 2: "outcome_predict
      (snd (outcome_train (\<lambda>X y. \<lparr>fit_scaler = None, fit_model = None, fit_raised = True\<rparr>)
         init_predictor \<lparr>df_columns = [], df_rows = []\<rparr>))
      \<lparr>df_columns = [''home_win_pct''], df_rows = [[''home_win_pct'' \<mapsto> 0.5]]\<rparr>
     = ([(''home_win_probability'', 0.5), (''confidence'', 0)], init_predictor)"
    by blast
  from t have 3: "spread_predict
      (snd (spread_train (\<lambda>X y. \<lparr>fit_scaler = None, fit_model = None, fit_raised = True\<rparr>)
         init_predictor \<lparr>df_columns = [], df_rows = []\<rparr>))
      \<lparr>df_columns = [''home_win_pct''], df_rows = [[''home_win_pct'' \<mapsto> 0.5]]\<rparr>
     = ([(''predicted_spread'', 0), (''confidence'', 0)], init_predictor)"
    by blast
  from t have 4: "total_predict
      (snd (total_train (\<lambda>X y. \<lparr>fit_scaler = None, fit_model = None, fit_raised = True\<rparr>)
         init_predictor \<lparr>df_columns = [], df_rows = []\<rparr>))
      \<lparr>df_columns = [''home_win_pct''], df_rows = [[''home_win_pct'' \<mapsto> 0.5]]\<rparr>
     = ([(''predicted_total'', 220), (''confidence'', 0)], init_predictor)"
    by blast
  show ?thesis
    unfolding 2 3 4 using 1 by simp
qed

lemma first_item_Inr: "first_item xs = Inr x \<Longrightarrow> x \<in> set xs"
  by (cases xs) (simp_all add: first_item_def)

lemma outcome_predict_cases:
  "fst (outcome_predict m features) = outcome_fallback \<or>
   (\<exists>clf X P row0. model m = Some clf \<and> clf X = Inr P \<and> row0 \<in> set P \<and>
      fst (outcome_predict m features) =
        [(''home_win_probability'', (if length row0 > 1 then row0 ! 1 else 0.5)),
         (''away_win_probability'', 1 - (if length row0 > 1 then row0 ! 1 else 0.5)),
         (''confidence'', \<bar>(if length row0 > 1 then row0 ! 1 else 0.5) - 0.5\<bar> * 2)])"
proof (cases "model m")
  case None
  then show ?thesis by (simp add: outcome_predict_def)
next
  case (Some clf)
  show ?thesis
  proof (cases "is_trained m")
    case False
    then show ?thesis by (simp add: outcome_predict_untrained)
  next
    case True
    obtain X m1 where pf: "prepare_features outcome_feature_cols m features = (X, m1)"
      by (cases "prepare_features outcome_feature_cols m features")
    show ?thesis
    proof (cases "scaler m1 (snd X)")
      case (Inl e)
      with Some True pf show ?thesis
        by (simp add: outcome_predict_def ebind_simps)
    next
      case Xs: (Inr X_scaled)
      show ?thesis
      proof (cases "clf X_scaled")
        case (Inl e)
        with Some True pf Xs show ?thesis
          by (simp add: outcome_predict_def ebind_simps)
      next
        case P: (Inr P)
        show ?thesis
        proof (cases "first_item P")
          case (Inl e)
          with Some True pf Xs P show ?thesis
            by (simp add: outcome_predict_def ebind_simps)
        next
          case (Inr row0)
          then have "row0 \<in> set P" by (rule first_item_Inr)
          moreover have "fst (outcome_predict m features) =
            [(''home_win_probability'', (if length row0 > 1 then row0 ! 1 else 0.5)),
             (''away_win_probability'', 1 - (if length row0 > 1 then row0 ! 1 else 0.5)),
             (''confidence'', \<bar>(if length row0 > 1 then row0 ! 1 else 0.5) - 0.5\<bar> * 2)]"
            using Some True pf Xs P Inr
            by (simp add: outcome_predict_def ebind_simps Let_def)
          ultimately show ?thesis
            using Some P by blast
        qed
      qed
    qed
  qed
qed

lemma spread_predict_cases:
  "fst (spread_predict m features) = spread_fallback \<or>
   (\<exists>s. fst (spread_predict m features) =
        [(''predicted_spread'', s), (''confidence'', min 0.8 (\<bar>s\<bar> / 20))])"
proof (cases "model m")
  case None
  then show ?thesis by (simp add: spread_predict_def)
next
  case (Some reg)
  show ?thesis
  proof (cases "is_trained m")
    case False
    then show ?thesis by (simp add: spread_predict_untrained)
  next
    case True
    obtain X m1 where pf: "prepare_features spread_feature_cols m features = (X, m1)"
      by (cases "prepare_features spread_feature_cols m features")
    show ?thesis
    proof (cases "ebind (scaler m1 (snd X)) (\<lambda>X_scaled. ebind (reg X_scaled) first_item)")
      case (Inl e)
      with Some True pf show ?thesis
        by (auto simp: spread_predict_def ebind_def split: sum.splits)
    next
      case (Inr s)
      with Some True pf have "fst (spread_predict m features) =
          [(''predicted_spread'', s), (''confidence'', min 0.8 (\<bar>s\<bar> / 20))]"
        by (auto simp: spread_predict_def ebind_def Let_def split: sum.splits)
      then show ?thesis by blast
    qed
  qed
qed

lemma total_predict_cases:
  "fst (total_predict m features) = total_fallback \<or>
   (\<exists>t. fst (total_predict m features) =
        [(''predicted_total'', t),
         (''confidence'', max 0.1 (min 0.8 (1 - \<bar>t - 220\<bar> / 100)))])"
proof (cases "model m")
  case None
  then show ?thesis by (simp add: total_predict_def)
next
  case (Some reg)
  show ?thesis
  proof (cases "is_trained m")
    case False
    then show ?thesis by (simp add: total_predict_untrained)
  next
    case True
    obtain X m1 where pf: "prepare_features total_feature_cols m features = (X, m1)"
      by (cases "prepare_features total_feature_cols m features")
    show ?thesis
    proof (cases "ebind (scaler m1 (snd X)) (\<lambda>X_scaled. ebind (reg X_scaled) first_item)")
      case (Inl e)
      with Some True pf show ?thesis
        by (auto simp: total_predict_def ebind_def split: sum.splits)
    next
      case (Inr t)
      with Some True pf have "fst (total_predict m features) =
          [(''predicted_total'', t),
           (''confidence'', max 0.1 (min 0.8 (1 - \<bar>t - 220\<bar> / 100)))]"
        by (auto simp: total_predict_def ebind_def Let_def split: sum.splits)
      then show ?thesis by blast
    qed
  qed
qed

lemma outcome_predict_trained:
  assumes "model m = Some clf" and "is_trained m"
    and "scaler m (snd (fst (prepare_features outcome_feature_cols m features))) = Inr X_scaled"
    and "clf X_scaled = Inr (row0 # more_rows)"
  shows "fst (outcome_predict m features) =
     [(''home_win_probability'', (if length row0 > 1 then row0 ! 1 else 0.5)),
      (''away_win_probability'', 1 - (if length row0 > 1 then row0 ! 1 else 0.5)),
      (''confidence'', \<bar>(if length row0 > 1 then row0 ! 1 else 0.5) - 0.5\<bar> * 2)]"
  using assms
  by (simp add: outcome_predict_def prepare_features_def ebind_simps first_item_def Let_def)

lemma spread_predict_trained:
  assumes "model m = Some reg" and "is_trained m"
    and "scaler m (snd (fst (prepare_features spread_feature_cols m features))) = Inr X_scaled"
    and "reg X_scaled = Inr (y # more_rows)"
  shows "fst (spread_predict m features) =
     [(''predicted_spread'', y), (''confidence'', min 0.8 (\<bar>y\<bar> / 20))]"
  using assms
  by (simp add: spread_predict_def prepare_features_def ebind_simps first_item_def Let_def)

lemma total_predict_trained:
  assumes "model m = Some reg" and "is_trained m"
    and "scaler m (snd (fst (prepare_features total_feature_cols m features))) = Inr X_scaled"
    and "reg X_scaled = Inr (y # more_rows)"
  shows "fst (total_predict m features) =
     [(''predicted_total'', y),
      (''confidence'', max 0.1 (min 0.8 (1 - \<bar>y - 220\<bar> / 100)))]"
  using assms
  by (simp add: total_predict_def prepare_features_def ebind_simps first_item_def Let_def)

text \<open>
  C7. In every state of the models and for every feature frame, the three confidences
  lie in the unit interval: the outcome confidence is twice the distance of the home
  win probability from 0.5, the spread confidence is the predicted magnitude over 20
  capped at 0.8, and the total confidence is 0 in the fallback and between 0.1 and 0.8
  otherwise. A trained model whose scaler and estimator return reports the estimator's
  value with the confidence computed from it: for the total model, 1 minus the distance
  from 220 over 100, capped at 0.8 and floored at 0.1. The classifier is taken to
  return probabilities, numbers between 0 and 1.
\<close>

theorem confidence_in_unit_interval:
  assumes "\<forall>clf X P. model om = Some clf \<longrightarrow> clf X = Inr P \<longrightarrow>
             (\<forall>row \<in> set P. \<forall>q \<in> set row. 0 \<le> q \<and> q \<le> 1)"
  shows "(\<exists>p c. getitem (fst (outcome_predict om features)) ''home_win_probability'' = Inr p \<and>
            getitem (fst (outcome_predict om features)) ''confidence'' = Inr c \<and>
            c = \<bar>p - 0.5\<bar> * 2 \<and> 0 \<le> c \<and> c \<le> 1) \<and>
         (\<exists>s c. getitem (fst (spread_predict sm features)) ''predicted_spread'' = Inr s \<and>
            getitem (fst (spread_predict sm features)) ''confidence'' = Inr c \<and>
            c = min 0.8 (\<bar>s\<bar> / 20) \<and> 0 \<le> c \<and> c \<le> 0.8) \<and>
         (\<exists>c. getitem (fst (total_predict tm features)) ''confidence'' = Inr c \<and>
            0 \<le> c \<and> c \<le> 1 \<and>
            (fst (total_predict tm features) = total_fallback \<or> 0.1 \<le> c \<and> c \<le> 0.8)) \<and>
         (\<forall>clf X_scaled row0 more_rows.
            model om = Some clf \<and> is_trained om \<and>
            scaler om (snd (fst (prepare_features outcome_feature_cols om features)))
              = Inr X_scaled \<and>
            clf X_scaled = Inr (row0 # more_rows) \<longrightarrow>
            fst (outcome_predict om features) =
              [(''home_win_probability'', (if length row0 > 1 then row0 ! 1 else 0.5)),
               (''away_win_probability'', 1 - (if length row0 > 1 then row0 ! 1 else 0.5)),
               (''confidence'', \<bar>(if length row0 > 1 then row0 ! 1 else 0.5) - 0.5\<bar> * 2)]) \<and>
         (\<forall>reg X_scaled y more_rows.
            model sm = Some reg \<and> is_trained sm \<and>
            scaler sm (snd (fst (prepare_features spread_feature_cols sm features)))
              = Inr X_scaled \<and>
            reg X_scaled = Inr (y # more_rows) \<longrightarrow>
            fst (spread_predict sm features) =
              [(''predicted_spread'', y), (''confidence'', min 0.8 (\<bar>y\<bar> / 20))]) \<and>
         (\<forall>reg X_scaled y more_rows.
            model tm = Some reg \<and> is_trained tm \<and>
            scaler tm (snd (fst (prepare_features total_feature_cols tm features)))
              = Inr X_scaled \<and>
            reg X_scaled = Inr (y # more_rows) \<longrightarrow>
            fst (total_predict tm features) =
              [(''predicted_total'', y),
               (''confidence'', max 0.1 (min 0.8 (1 - \<bar>y - 220\<bar> / 100)))] \<and>
            0.1 \<le> max 0.1 (min 0.8 (1 - \<bar>y - 220\<bar> / 100)) \<and>
            max 0.1 (min 0.8 (1 - \<bar>y - 220\<bar> / 100)) \<le> (0.8 :: real))"
proof -
  have o: "\<exists>p c. getitem (fst (outcome_predict om features)) ''home_win_probability'' = Inr p \<and>
            getitem (fst (outcome_predict om features)) ''confidence'' = Inr c \<and>
            c = \<bar>p - 0.5\<bar> * 2 \<and> 0 \<le> c \<and> c \<le> 1"
    using outcome_predict_cases [of om features]
  proof
    assume "fst (outcome_predict om features) = outcome_fallback"
    then show ?thesis
      by (intro exI [of _ "0.5"] exI [of _ 0]) (simp add: outcome_fallback_def getitem_def)
  next
    assume "\<exists>clf X P row0. model om = Some clf \<and> clf X = Inr P \<and> row0 \<in> set P \<and>
      fst (outcome_predict om features) =
        [(''home_win_probability'', (if length row0 > 1 then row0 ! 1 else 0.5)),
         (''away_win_probability'', 1 - (if length row0 > 1 then row0 ! 1 else 0.5)),
         (''confidence'', \<bar>(if length row0 > 1 then row0 ! 1 else 0.5) - 0.5\<bar> * 2)]"
    then obtain clf X P row0 where m: "model om = Some clf" and c: "clf X = Inr P"
      and r: "row0 \<in> set P"
      and eq: "fst (outcome_predict om features) =
        [(''home_win_probability'', (if length row0 > 1 then row0 ! 1 else 0.5)),
         (''away_win_probability'', 1 - (if length row0 > 1 then row0 ! 1 else 0.5)),
         (''confidence'', \<bar>(if length row0 > 1 then row0 ! 1 else 0.5) - 0.5\<bar> * 2)]"
      by blast
    let ?p = "if length row0 > 1 then row0 ! 1 else (0.5 :: real)"
    from assms m c r have "\<forall>q \<in> set row0. 0 \<le> q \<and> q \<le> 1"
      by blast
    then have "0 \<le> ?p \<and> ?p \<le> 1"
      by (cases "length row0 > 1") simp_all
    moreover have "0 \<le> q \<and> q \<le> 1 \<Longrightarrow> 0 \<le> \<bar>q - 0.5\<bar> * 2 \<and> \<bar>q - 0.5\<bar> * 2 \<le> 1"
      for q :: real
      by (auto simp: abs_if)
    ultimately have "0 \<le> \<bar>?p - 0.5\<bar> * 2 \<and> \<bar>?p - 0.5\<bar> * 2 \<le> 1"
      by blast
    then show ?thesis
      unfolding eq
      by (intro exI [of _ ?p] exI [of _ "\<bar>?p - 0.5\<bar> * 2"]) (simp add: getitem_def)
  qed
  have s: "\<exists>s c. getitem (fst (spread_predict sm features)) ''predicted_spread'' = Inr s \<and>
            getitem (fst (spread_predict sm features)) ''confidence'' = Inr c \<and>
            c = min 0.8 (\<bar>s\<bar> / 20) \<and> 0 \<le> c \<and> c \<le> 0.8"
    using spread_predict_cases [of sm features]
  proof
    assume "fst (spread_predict sm features) = spread_fallback"
    then show ?thesis
      by (intro exI [of _ 0]) (simp add: spread_fallback_def getitem_def)
  next
    assume "\<exists>s. fst (spread_predict sm features) =
        [(''predicted_spread'', s), (''confidence'', min 0.8 (\<bar>s\<bar> / 20))]"
    then obtain s where eq: "fst (spread_predict sm features) =
        [(''predicted_spread'', s), (''confidence'', min 0.8 (\<bar>s\<bar> / 20))]" ..
    show ?thesis
      unfolding eq
      by (intro exI [of _ s] exI [of _ "min 0.8 (\<bar>s\<bar> / 20)"]) (simp add: getitem_def)
  qed
  have t: "\<exists>c. getitem (fst (total_predict tm features)) ''confidence'' = Inr c \<and>
            0 \<le> c \<and> c \<le> 1 \<and>
            (fst (total_predict tm features) = total_fallback \<or> 0.1 \<le> c \<and> c \<le> 0.8)"
    using total_predict_cases [of tm features]
  proof
    assume "fst (total_predict tm features) = total_fallback"
    then show ?thesis
      by (intro exI [of _ 0]) (simp add: total_fallback_def getitem_def)
  next
    assume "\<exists>t. fst (total_predict tm features) =
        [(''predicted_total'', t),
         (''confidence'', max 0.1 (min 0.8 (1 - \<bar>t - 220\<bar> / 100)))]"
    then obtain t where eq: "fst (total_predict tm features) =
        [(''predicted_total'', t),
         (''confidence'', max 0.1 (min 0.8 (1 - \<bar>t - 220\<bar> / 100)))]" ..
    have "0 \<le> max 0.1 (min 0.8 (1 - \<bar>t - 220\<bar> / 100)) \<and>
          max 0.1 (min 0.8 (1 - \<bar>t - 220\<bar> / 100)) \<le> 1 \<and>
          0.1 \<le> max 0.1 (min 0.8 (1 - \<bar>t - 220\<bar> / 100)) \<and>
          max 0.1 (min 0.8 (1 - \<bar>t - 220\<bar> / 100)) \<le> 0.8"
      by (simp add: max_def min_def)
    then show ?thesis
      unfolding eq
      by (intro exI [of _ "max 0.1 (min 0.8 (1 - \<bar>t - 220\<bar> / 100))"])
        (simp add: getitem_def)
  qed
  have ot: "\<forall>clf X_scaled row0 more_rows.
            model om = Some clf \<and> is_trained om \<and>
            scaler om (snd (fst (prepare_features outcome_feature_cols om features)))
              = Inr X_scaled \<and>
            clf X_scaled = Inr (row0 # more_rows) \<longrightarrow>
            fst (outcome_predict om features) =
              [(''home_win_probability'', (if length row0 > 1 then row0 ! 1 else 0.5)),
               (''away_win_probability'', 1 - (if length row0 > 1 then row0 ! 1 else 0.5)),
               (''confidence'', \<bar>(if length row0 > 1 then row0 ! 1 else 0.5) - 0.5\<bar> * 2)]"
    using outcome_predict_trained [of om _ features] by blast
  have st: "\<forall>reg X_scaled y more_rows.
            model sm = Some reg \<and> is_trained sm \<and>
            scaler sm (snd (fst (prepare_features spread_feature_cols sm features)))
              = Inr X_scaled \<and>
            reg X_scaled = Inr (y # more_rows) \<longrightarrow>
            fst (spread_predict sm features) =
              [(''predicted_spread'', y), (''confidence'', min 0.8 (\<bar>y\<bar> / 20))]"
    using spread_predict_trained [of sm _ features] by blast
  have bounds: "0.1 \<le> max 0.1 (min 0.8 (1 - \<bar>y - 220\<bar> / 100)) \<and>
            max 0.1 (min 0.8 (1 - \<bar>y - 220\<bar> / 100)) \<le> (0.8 :: real)" for y :: real
    by (simp add: max_def min_def)
  have tt: "\<forall>reg X_scaled y more_rows.
            model tm = Some reg \<and> is_trained tm \<and>
            scaler tm (snd (fst (prepare_features total_feature_cols tm features)))
              = Inr X_scaled \<and>
            reg X_scaled = Inr (y # more_rows) \<longrightarrow>
            fst (total_predict tm features) =
              [(''predicted_total'', y),
               (''confidence'', max 0.1 (min 0.8 (1 - \<bar>y - 220\<bar> / 100)))] \<and>
            0.1 \<le> max 0.1 (min 0.8 (1 - \<bar>y - 220\<bar> / 100)) \<and>
            max 0.1 (min 0.8 (1 - \<bar>y - 220\<bar> / 100)) \<le> (0.8 :: real)"
    using total_predict_trained [of tm _ features] bounds by blast
  from o s t ot st tt show ?thesis by blast
qed

theorem confidence_in_unit_interval_witness:
  "getitem (fst (outcome_predict
      \<lparr>model = Some (\<lambda>X. Inr [[0.3, 0.7]]), scaler = (\<lambda>X. Inr X),
        feature_columns = None, is_trained = True\<rparr>
      \<lparr>df_columns = [''home_win_pct''], df_rows = [[''home_win_pct'' \<mapsto> 0.5]]\<rparr>))
     ''confidence'' = Inr 0.4 \<and>
   fst (total_predict
      \<lparr>model = Some (\<lambda>X. Inr [250]), scaler = (\<lambda>X. Inr X),
        feature_columns = None, is_trained = True\<rparr>
      \<lparr>df_columns = [''home_win_pct''], df_rows = [[''home_win_pct'' \<mapsto> 0.5]]\<rparr>)
     = [(''predicted_total'', 250), (''confidence'', 0.7)]"
proof -
  have h: "\<forall>clf X P. model \<lparr>model = Some (\<lambda>X. Inr [[0.3, 0.7 :: real]]), scaler = (\<lambda>X. Inr X),
        feature_columns = None, is_trained = True\<rparr> = Some clf \<longrightarrow> clf X = Inr P \<longrightarrow>
             (\<forall>row \<in> set P. \<forall>q \<in> set row. 0 \<le> q \<and> q \<le> 1)"
    by auto
  have p: "getitem (fst (outcome_predict
      \<lparr>model = Some (\<lambda>X. Inr [[0.3, 0.7]]), scaler = (\<lambda>X. Inr X),
        feature_columns = None, is_trained = True\<rparr>
      \<lparr>df_columns = [''home_win_pct''], df_rows = [[''home_win_pct'' \<mapsto> 0.5]]\<rparr>))
     ''home_win_probability'' = Inr 0.7"
    by (simp add: outcome_predict_def prepare_features_def ebind_simps first_item_def
        getitem_def Let_def)
  note t = confidence_in_unit_interval [OF h, of
      "\<lparr>df_columns = [''home_win_pct''], df_rows = [[''home_win_pct'' \<mapsto> 0.5]]\<rparr>"
      init_predictor
      "\<lparr>model = Some (\<lambda>X. Inr [250]), scaler = (\<lambda>X. Inr X),
        feature_columns = None, is_trained = True\<rparr>"]
  from t p have 1: "getitem (fst (outcome_predict
      \<lparr>model = Some (\<lambda>X. Inr [[0.3, 0.7]]), scaler = (\<lambda>X. Inr X),
        feature_columns = None, is_trained = True\<rparr>
      \<lparr>df_columns = [''home_win_pct''], df_rows = [[''home_win_pct'' \<mapsto> 0.5]]\<rparr>))
     ''confidence'' = Inr 0.4"
    by auto
  from t have "\<forall>reg X_scaled y more_rows.
            model \<lparr>model = Some (\<lambda>X. Inr [250 :: real]), scaler = (\<lambda>X. Inr X),
                   feature_columns = None, is_trained = True\<rparr> = Some reg \<and>
            is_trained \<lparr>model = Some (\<lambda>X. Inr [250 :: real]), scaler = (\<lambda>X. Inr X),
                   feature_columns = None, is_trained = True\<rparr> \<and>
            scaler \<lparr>model = Some (\<lambda>X. Inr [250 :: real]), scaler = (\<lambda>X. Inr X),
                   feature_columns = None, is_trained = True\<rparr>
              (snd (fst (prepare_features total_feature_cols
                 \<lparr>model = Some (\<lambda>X. Inr [250 :: real]), scaler = (\<lambda>X. Inr X),
                   feature_columns = None, is_trained = True\<rparr>
                 \<lparr>df_columns = [''home_win_pct''], df_rows = [[''home_win_pct'' \<mapsto> 0.5]]\<rparr>)))
              = Inr X_scaled \<and>
            reg X_scaled = Inr (y # more_rows) \<longrightarrow>
            fst (total_predict
               \<lparr>model = Some (\<lambda>X. Inr [250 :: real]), scaler = (\<lambda>X. Inr X),
                   feature_columns = None, is_trained = True\<rparr>
               \<lparr>df_columns = [''home_win_pct''], df_rows = [[''home_win_pct'' \<mapsto> 0.5]]\<rparr>) =
              [(''predicted_total'', y),
               (''confidence'', max 0.1 (min 0.8 (1 - \<bar>y - 220\<bar> / 100)))]"
    by blast
  then have 2: "fst (total_predict
      \<lparr>model = Some (\<lambda>X. Inr [250]), scaler = (\<lambda>X. Inr X),
        feature_columns = None, is_trained = True\<rparr>
      \<lparr>df_columns = [''home_win_pct''], df_rows = [[''home_win_pct'' \<mapsto> 0.5]]\<rparr>)
     = [(''predicted_total'', 250), (''confidence'', 0.7)]"
    by simp
  from 1 2 show ?thesis by blast
qed

section \<open>The merged prediction of the model manager\<close>


lemma combine_predictions_outcome_fallback:
  "combine_predictions outcome_fallback spread_pred total_pred now
     = Inl (KeyError ''away_win_probability'')"
  by (simp add: combine_predictions_def outcome_fallback_def getitem_def ebind_simps)

lemma predict_game_try_combine:
  "fst (predict_game_try mgr home_id away_id now) =
     combine_predictions
       (fst (outcome_predict (outcome_model mgr)
          (dataframe_of_dict (projr (create_game_features (mgr_db mgr) home_id away_id)))))
       (fst (spread_predict (spread_model mgr)
          (dataframe_of_dict (projr (create_game_features (mgr_db mgr) home_id away_id)))))
       (fst (total_predict (total_model mgr)
          (dataframe_of_dict (projr (create_game_features (mgr_db mgr) home_id away_id)))))
       now"
proof (cases "create_game_features (mgr_db mgr) home_id away_id")
  case (Inl e)
  with create_game_features_succeeds [of "mgr_db mgr" home_id away_id] show ?thesis
    by simp
next
  case (Inr fd)
  then show ?thesis
    by (simp add: predict_game_try_def Let_def split_beta)
qed

lemma predict_game_result:
  "fst (predict_game mgr home_id away_id now) =
     (case fst (predict_game_try mgr home_id away_id now) of
        Inr predictions \<Rightarrow> predictions
      | Inl e \<Rightarrow> neutral_bundle)"
  by (cases "predict_game_try mgr home_id away_id now")
    (simp add: predict_game_def split: sum.splits)



lemma predict_game_outcome_unready:
  assumes "\<not> is_trained (outcome_model mgr)"
  shows "fst (predict_game mgr home_id away_id now) = neutral_bundle"
  by (simp add: predict_game_result predict_game_try_combine
      outcome_predict_untrained [OF assms] combine_predictions_outcome_fallback)

text \<open>
  C2 does not hold of the code when the unready model is the outcome model. Its fallback
  has no \<open>away_win_probability\<close>, which the merge reads; the lookup raises and the
  handler replaces everything by the neutral bundle. Here the spread model predicts 4
  and the total model 210, both trained, and the merged prediction has spread 0 and
  total 220.
\<close>

theorem predict_game_outcome_unready_discards_trained:
  "fst (spread_predict
      \<lparr>model = Some (\<lambda>X. Inr [4]), scaler = (\<lambda>X. Inr X),
        feature_columns = None, is_trained = True\<rparr>
      (dataframe_of_dict (projr (create_game_features
         \<lparr>db_up = True, db_games = [], db_predictions = []\<rparr> ''BOS'' ''NYK''))))
     = [(''predicted_spread'', 4), (''confidence'', 0.2)] \<and>
   fst (total_predict
      \<lparr>model = Some (\<lambda>X. Inr [210]), scaler = (\<lambda>X. Inr X),
        feature_columns = None, is_trained = True\<rparr>
      (dataframe_of_dict (projr (create_game_features
         \<lparr>db_up = True, db_games = [], db_predictions = []\<rparr> ''BOS'' ''NYK''))))
     = [(''predicted_total'', 210), (''confidence'', 0.8)] \<and>
   fst (predict_game
      \<lparr>outcome_model = init_predictor,
        spread_model = \<lparr>model = Some (\<lambda>X. Inr [4]), scaler = (\<lambda>X. Inr X),
                         feature_columns = None, is_trained = True\<rparr>,
        total_model = \<lparr>model = Some (\<lambda>X. Inr [210]), scaler = (\<lambda>X. Inr X),
                        feature_columns = None, is_trained = True\<rparr>,
        mgr_db = \<lparr>db_up = True, db_games = [], db_predictions = []\<rparr>\<rparr>
      ''BOS'' ''NYK'' ''2025-01-01T00:00:00'')
     = [(''home_win_probability'', Num 0.5), (''away_win_probability'', Num 0.5),
        (''predicted_spread'', Num 0), (''predicted_total'', Num 220),
        (''confidence_scores'',
           Dict [(''outcome'', Num 0), (''spread'', Num 0), (''total'', Num 0)])]"
proof -
  have s: "fst (spread_predict
      \<lparr>model = Some (\<lambda>X. Inr [4]), scaler = (\<lambda>X. Inr X),
        feature_columns = None, is_trained = True\<rparr> F)
     = [(''predicted_spread'', 4), (''confidence'', 0.2)]" for F
    by (simp add: spread_predict_def prepare_features_def ebind_simps first_item_def Let_def)
  have t: "fst (total_predict
      \<lparr>model = Some (\<lambda>X. Inr [210]), scaler = (\<lambda>X. Inr X),
        feature_columns = None, is_trained = True\<rparr> F)
     = [(''predicted_total'', 210), (''confidence'', 0.8)]" for F
    by (simp add: total_predict_def prepare_features_def ebind_simps first_item_def Let_def)
  have u: "\<not> is_trained (outcome_model
      \<lparr>outcome_model = init_predictor,
        spread_model = \<lparr>model = Some (\<lambda>X. Inr [4]), scaler = (\<lambda>X. Inr X),
                         feature_columns = None, is_trained = True\<rparr>,
        total_model = \<lparr>model = Some (\<lambda>X. Inr [210]), scaler = (\<lambda>X. Inr X),
                        feature_columns = None, is_trained = True\<rparr>,
        mgr_db = \<lparr>db_up = True, db_games = [], db_predictions = []\<rparr>\<rparr>)"
    by (simp add: init_predictor_def)
  show ?thesis
    unfolding s t predict_game_outcome_unready [OF u]
    by (simp add: neutral_bundle_def)
qed

text \<open>
  The sibling path works as the claim says: with the spread model unready and the other
  two trained, the merge keeps the trained values and takes the spread fallback.
\<close>

lemma predict_game_spread_unready_merges:
  "fst (predict_game
      \<lparr>outcome_model = \<lparr>model = Some (\<lambda>X. Inr [[0.3, 0.7]]), scaler = (\<lambda>X. Inr X),
                          feature_columns = None, is_trained = True\<rparr>,
        spread_model = init_predictor,
        total_model = \<lparr>model = Some (\<lambda>X. Inr [210]), scaler = (\<lambda>X. Inr X),
                        feature_columns = None, is_trained = True\<rparr>,
        mgr_db = \<lparr>db_up = True, db_games = [], db_predictions = []\<rparr>\<rparr>
      ''BOS'' ''NYK'' ''2025-01-01T00:00:00'')
     = [(''home_win_probability'', Num 0.7), (''away_win_probability'', Num 0.3),
        (''predicted_spread'', Num 0), (''predicted_total'', Num 210),
        (''confidence_scores'',
           Dict [(''outcome'', Num 0.4), (''spread'', Num 0), (''total'', Num 0.8)]),
        (''model_name'', Str ''Project Apex ML''),
        (''prediction_time'', Str ''2025-01-01T00:00:00'')]"
proof -
  have o: "fst (outcome_predict
      \<lparr>model = Some (\<lambda>X. Inr [[0.3, 0.7]]), scaler = (\<lambda>X. Inr X),
        feature_columns = None, is_trained = True\<rparr> F)
     = [(''home_win_probability'', 0.7), (''away_win_probability'', 0.3),
        (''confidence'', 0.4)]" for F
    by (simp add: outcome_predict_def prepare_features_def ebind_simps first_item_def Let_def)
  have s: "fst (spread_predict (init_predictor :: real list predictor) F) = spread_fallback"
    for F
    by (simp add: spread_predict_untrained init_predictor_def)
  have t: "fst (total_predict
      \<lparr>model = Some (\<lambda>X. Inr [210]), scaler = (\<lambda>X. Inr X),
        feature_columns = None, is_trained = True\<rparr> F)
     = [(''predicted_total'', 210), (''confidence'', 0.8)]" for F
    by (simp add: total_predict_def prepare_features_def ebind_simps first_item_def Let_def)
  show ?thesis
    by (simp add: predict_game_result predict_game_try_combine o s t spread_fallback_def
        combine_predictions_def getitem_def ebind_simps)
qed

end
